theory Spec2Isabelle
  imports Main "HOL-Library.Word"
begin

unbundle bit_operations_syntax

section \<open>The NCT610XD Super-I/O GPIO driver (gpio-nct610xd.c)\<close>

subsection \<open>Constants of the driver and of the kernel headers it uses\<close>

type_synonym u8 = "8 word"
type_synonym u16 = "16 word"
type_synonym c_int = "32 word"

definition SIO_LDSEL :: int where "SIO_LDSEL = 0x07"
definition SIO_CHIPID :: int where "SIO_CHIPID = 0x20"
definition SIO_GPIO_ENABLE :: int where "SIO_GPIO_ENABLE = 0x30"
definition SIO_LD_GPIO :: int where "SIO_LD_GPIO = 0x07"
definition SIO_UNLOCK_KEY :: int where "SIO_UNLOCK_KEY = 0x87"
definition SIO_LOCK_KEY :: int where "SIO_LOCK_KEY = 0xAA"
definition SIO_NCT610XD_ID :: int where "SIO_NCT610XD_ID = 0xd282"

text \<open>The errno values of the kernel headers (errno-base.h).\<close>

definition EPERM :: int where "EPERM = 1"
definition ENOMEM :: int where "ENOMEM = 12"
definition EBUSY :: int where "EBUSY = 16"
definition ENODEV :: int where "ENODEV = 19"

subsection \<open>Data model\<close>

datatype chips = nct610xd

record nct610xd_sio =
  addr :: int
  type :: chips

text \<open>
  \<open>struct nct610xd_gpio_bank\<close>: the fields of the embedded \<open>gpio_chip\<close> that the
  table initialises (\<open>base\<close>, \<open>ngpio\<close>) and \<open>regbase\<close> (an \<open>unsigned int\<close>). The
  pointer chain \<open>bank->data->sio\<close> is passed to every operation as its \<open>sio\<close> argument.
\<close>

record nct610xd_gpio_bank =
  base :: int
  ngpio :: nat
  regbase :: "32 word"

definition NCT610XD_GPIO_BANK :: "int \<Rightarrow> nat \<Rightarrow> 32 word \<Rightarrow> nct610xd_gpio_bank" where
  "NCT610XD_GPIO_BANK b n r = \<lparr>base = b, ngpio = n, regbase = r\<rparr>"

definition gpio_dir :: "32 word \<Rightarrow> 32 word" where
  "gpio_dir b = b + 0"

definition gpio_data :: "32 word \<Rightarrow> 32 word" where
  "gpio_data b = b + 1"

definition nct610xd_gpio_bank :: "nct610xd_gpio_bank list" where
  "nct610xd_gpio_bank = [NCT610XD_GPIO_BANK 40 8 0xF0]"

subsection \<open>The machine: I/O regions, port bus, platform bus\<close>

text \<open>
  Everything the driver does to its environment is recorded, in order, in a trace.
  \<open>Request\<close>/\<open>Denied\<close>/\<open>Release\<close> are the calls of the kernel's I/O-region allocator,
  \<open>Outb v p\<close> is a byte \<open>v\<close> written to port \<open>p\<close>, \<open>Inb p v\<close> a byte \<open>v\<close> read from
  port \<open>p\<close>; the remaining events are the calls into the platform bus.
\<close>

datatype event =
    Request int int
  | Denied int int
  | Release int int
  | Outb u8 int
  | Inb int u8
  | DriverRegister
  | DriverUnregister
  | DeviceAlloc
  | DeviceAddData nct610xd_sio
  | DeviceAdd
  | DevicePut

text \<open>
  The hardware behind the ports is a parameter: any state type \<open>'h\<close> with a reaction to
  a byte written to a port and a reaction to a read of a port.
\<close>

record 'h ports =
  hw_outb :: "u8 \<Rightarrow> int \<Rightarrow> 'h \<Rightarrow> 'h"
  hw_inb :: "int \<Rightarrow> 'h \<Rightarrow> u8 \<times> 'h"

record 'h machine =
  regions :: "(int \<times> int) list"
  trace :: "event list"
  hw :: 'h

definition overlaps :: "int \<Rightarrow> int \<Rightarrow> int \<times> int \<Rightarrow> bool" where
  "overlaps start n r \<longleftrightarrow> start < fst r + snd r \<and> fst r < start + n"

text \<open>
  \<open>request_muxed_region\<close> as the driver uses it: a test-and-fail acquisition of the
  ports \<open>start .. start + n - 1\<close>, refused when a region already held overlaps them.
  \<open>regions\<close> lists the regions held, as (first port, number of ports). The model is
  sequential: a caller that would sleep until another holder lets go is not represented.
\<close>

definition request_muxed_region :: "int \<Rightarrow> int \<Rightarrow> 'h machine \<Rightarrow> bool \<times> 'h machine" where
  "request_muxed_region start n s =
     (if list_ex (overlaps start n) (regions s)
      then (False, s\<lparr>trace := trace s @ [Denied start n]\<rparr>)
      else (True, s\<lparr>regions := (start, n) # regions s,
                     trace := trace s @ [Request start n]\<rparr>))"

definition release_region :: "int \<Rightarrow> int \<Rightarrow> 'h machine \<Rightarrow> 'h machine" where
  "release_region start n s =
     s\<lparr>regions := remove1 (start, n) (regions s), trace := trace s @ [Release start n]\<rparr>"

text \<open>\<open>outb(value, port)\<close> takes a byte: the \<open>int\<close> the driver passes is truncated.\<close>

definition outb :: "'h ports \<Rightarrow> int \<Rightarrow> int \<Rightarrow> 'h machine \<Rightarrow> 'h machine" where
  "outb P v port s =
     s\<lparr>trace := trace s @ [Outb (word_of_int v) port],
       hw := hw_outb P (word_of_int v) port (hw s)\<rparr>"

definition inb :: "'h ports \<Rightarrow> int \<Rightarrow> 'h machine \<Rightarrow> u8 \<times> 'h machine" where
  "inb P port s =
     (case hw_inb P port (hw s) of
        (v, h) \<Rightarrow> (v, s\<lparr>trace := trace s @ [Inb port v], hw := h\<rparr>))"

subsection \<open>Super-I/O functions\<close>

definition superio_inb :: "'h ports \<Rightarrow> int \<Rightarrow> int \<Rightarrow> 'h machine \<Rightarrow> int \<times> 'h machine" where
  "superio_inb P b reg s =
     (case inb P (b + 1) (outb P reg b s) of (v, s') \<Rightarrow> (uint v, s'))"

definition superio_inw :: "'h ports \<Rightarrow> int \<Rightarrow> int \<Rightarrow> 'h machine \<Rightarrow> int \<times> 'h machine" where
  "superio_inw P b reg s =
     (case inb P (b + 1) (outb P reg b s) of
        (hi, s1) \<Rightarrow>
          (case inb P (b + 1) (outb P (reg + 1) b s1) of
             (lo, s2) \<Rightarrow> (push_bit 8 (uint hi) OR uint lo, s2)))"

definition superio_outb :: "'h ports \<Rightarrow> int \<Rightarrow> int \<Rightarrow> int \<Rightarrow> 'h machine \<Rightarrow> 'h machine" where
  "superio_outb P b reg val s = outb P val (b + 1) (outb P reg b s)"

definition superio_enter :: "'h ports \<Rightarrow> int \<Rightarrow> 'h machine \<Rightarrow> int \<times> 'h machine" where
  "superio_enter P b s =
     (case request_muxed_region b 2 s of
        (ok, s1) \<Rightarrow>
          if \<not> ok then (- EBUSY, s1)
          else (0, outb P SIO_UNLOCK_KEY b (outb P SIO_UNLOCK_KEY b s1)))"

definition superio_select :: "'h ports \<Rightarrow> int \<Rightarrow> int \<Rightarrow> 'h machine \<Rightarrow> 'h machine" where
  "superio_select P b ld s = outb P ld (b + 1) (outb P SIO_LDSEL b s)"

definition superio_exit :: "'h ports \<Rightarrow> int \<Rightarrow> 'h machine \<Rightarrow> 'h machine" where
  "superio_exit P b s = release_region b 2 (outb P SIO_LOCK_KEY b s)"

subsection \<open>GPIO chip operations\<close>

text \<open>
  The pin \<open>offset\<close> is the \<open>unsigned\<close> argument of the callbacks; \<open>1 << offset\<close> is
  computed in \<open>int\<close> after the integer promotion of the \<open>u8\<close> operand, and assigning
  the result back to a \<open>u8\<close> truncates it. (C leaves a shift by 32 or more undefined; the
  model gives \<open>push_bit\<close>'s value there. The bank registers 8 lines, offsets 0..7.)
\<close>

definition nct610xd_gpio_get_direction ::
  "'h ports \<Rightarrow> nct610xd_sio \<Rightarrow> nct610xd_gpio_bank \<Rightarrow> nat \<Rightarrow> 'h machine \<Rightarrow> int \<times> 'h machine" where
  "nct610xd_gpio_get_direction P sio bank offset s =
     (case superio_enter P (addr sio) s of
        (err, s1) \<Rightarrow>
          if err \<noteq> 0 then (err, s1)
          else
            (case superio_inb P (addr sio) (sint (gpio_dir (regbase bank)))
                    (superio_select P (addr sio) SIO_LD_GPIO s1) of
               (v, s2) \<Rightarrow>
                 let dir = (word_of_int v :: u8);
                     s3 = superio_exit P (addr sio) s2
                 in (sint ((ucast dir :: c_int) AND push_bit offset 1), s3)))"

definition nct610xd_gpio_direction_in ::
  "'h ports \<Rightarrow> nct610xd_sio \<Rightarrow> nct610xd_gpio_bank \<Rightarrow> nat \<Rightarrow> 'h machine \<Rightarrow> int \<times> 'h machine" where
  "nct610xd_gpio_direction_in P sio bank offset s =
     (case superio_enter P (addr sio) s of
        (err, s1) \<Rightarrow>
          if err \<noteq> 0 then (err, s1)
          else
            (case superio_inb P (addr sio) (sint (gpio_dir (regbase bank)))
                    (superio_select P (addr sio) SIO_LD_GPIO s1) of
               (v, s2) \<Rightarrow>
                 let dir = (word_of_int v :: u8);
                     dir = (ucast ((ucast dir :: c_int) OR push_bit offset 1) :: u8);
                     s3 = superio_outb P (addr sio) (sint (gpio_dir (regbase bank))) (uint dir) s2;
                     s4 = superio_exit P (addr sio) s3
                 in (0, s4)))"

definition nct610xd_gpio_get ::
  "'h ports \<Rightarrow> nct610xd_sio \<Rightarrow> nct610xd_gpio_bank \<Rightarrow> nat \<Rightarrow> 'h machine \<Rightarrow> int \<times> 'h machine" where
  "nct610xd_gpio_get P sio bank offset s =
     (case superio_enter P (addr sio) s of
        (err, s1) \<Rightarrow>
          if err \<noteq> 0 then (err, s1)
          else
            (case superio_inb P (addr sio) (sint (gpio_data (regbase bank)))
                    (superio_select P (addr sio) SIO_LD_GPIO s1) of
               (v, s2) \<Rightarrow>
                 let data = (word_of_int v :: u8);
                     s3 = superio_exit P (addr sio) s2
                 in (if (ucast data :: c_int) AND push_bit offset 1 \<noteq> 0 then 1 else 0, s3)))"

definition nct610xd_gpio_direction_out ::
  "'h ports \<Rightarrow> nct610xd_sio \<Rightarrow> nct610xd_gpio_bank \<Rightarrow> nat \<Rightarrow> int \<Rightarrow> 'h machine
     \<Rightarrow> int \<times> 'h machine" where
  "nct610xd_gpio_direction_out P sio bank offset value s =
     (case superio_enter P (addr sio) s of
        (err, s1) \<Rightarrow>
          if err \<noteq> 0 then (err, s1)
          else
            (case superio_inb P (addr sio) (sint (gpio_data (regbase bank)))
                    (superio_select P (addr sio) SIO_LD_GPIO s1) of
               (v, s2) \<Rightarrow>
                 let data_out = (word_of_int v :: u8);
                     data_out =
                       (if value \<noteq> 0
                        then (ucast ((ucast data_out :: c_int) OR push_bit offset 1) :: u8)
                        else (ucast ((ucast data_out :: c_int) AND NOT (push_bit offset 1)) :: u8));
                     s3 = superio_outb P (addr sio) (sint (gpio_data (regbase bank)))
                            (uint data_out) s2
                 in
                   (case superio_inb P (addr sio) (sint (gpio_dir (regbase bank))) s3 of
                      (w, s4) \<Rightarrow>
                        let dir = (word_of_int w :: u8);
                            dir = (ucast ((ucast dir :: c_int) AND NOT (push_bit offset 1)) :: u8);
                            s5 = superio_outb P (addr sio) (sint (gpio_dir (regbase bank)))
                                   (uint dir) s4;
                            s6 = superio_exit P (addr sio) s5
                        in (0, s6))))"

text \<open>\<open>nct610xd_gpio_set\<close> returns \<open>void\<close>: the model returns the machine only.\<close>

definition nct610xd_gpio_set ::
  "'h ports \<Rightarrow> nct610xd_sio \<Rightarrow> nct610xd_gpio_bank \<Rightarrow> nat \<Rightarrow> int \<Rightarrow> 'h machine \<Rightarrow> 'h machine" where
  "nct610xd_gpio_set P sio bank offset value s =
     (case superio_enter P (addr sio) s of
        (err, s1) \<Rightarrow>
          if err \<noteq> 0 then s1
          else
            (case superio_inb P (addr sio) (sint (gpio_data (regbase bank)))
                    (superio_select P (addr sio) SIO_LD_GPIO s1) of
               (v, s2) \<Rightarrow>
                 let data_out = (word_of_int v :: u8);
                     data_out =
                       (if value \<noteq> 0
                        then (ucast ((ucast data_out :: c_int) OR push_bit offset 1) :: u8)
                        else (ucast ((ucast data_out :: c_int) AND NOT (push_bit offset 1)) :: u8));
                     s3 = superio_outb P (addr sio) (sint (gpio_data (regbase bank)))
                            (uint data_out) s2
                 in superio_exit P (addr sio) s3))"

text \<open>
  The callback table that \<open>NCT610XD_GPIO_BANK\<close> fills in: what the caller of a
  \<open>gpio_chip\<close> callback gets back. The \<open>set\<close> callback has no return value.
\<close>

datatype request =
    GetDirection nat
  | DirectionInput nat
  | Get nat
  | DirectionOutput nat int
  | Set nat int

fun gpio_chip_call ::
  "'h ports \<Rightarrow> nct610xd_sio \<Rightarrow> nct610xd_gpio_bank \<Rightarrow> request \<Rightarrow> 'h machine
     \<Rightarrow> int option \<times> 'h machine" where
  "gpio_chip_call P sio bank (GetDirection offset) s =
     (case nct610xd_gpio_get_direction P sio bank offset s of (r, s') \<Rightarrow> (Some r, s'))"
| "gpio_chip_call P sio bank (DirectionInput offset) s =
     (case nct610xd_gpio_direction_in P sio bank offset s of (r, s') \<Rightarrow> (Some r, s'))"
| "gpio_chip_call P sio bank (Get offset) s =
     (case nct610xd_gpio_get P sio bank offset s of (r, s') \<Rightarrow> (Some r, s'))"
| "gpio_chip_call P sio bank (DirectionOutput offset value) s =
     (case nct610xd_gpio_direction_out P sio bank offset value s of (r, s') \<Rightarrow> (Some r, s'))"
| "gpio_chip_call P sio bank (Set offset value) s =
     (None, nct610xd_gpio_set P sio bank offset value s)"

subsection \<open>Discovery\<close>

text \<open>The label \<open>err:\<close> of \<open>nct610xd_find\<close>, where every \<open>goto err\<close> and the
  fall-through arrive.\<close>

definition nct610xd_find_err ::
  "'h ports \<Rightarrow> int \<Rightarrow> int \<Rightarrow> nct610xd_sio \<Rightarrow> 'h machine \<Rightarrow> int \<times> nct610xd_sio \<times> 'h machine" where
  "nct610xd_find_err P a err sio s = (err, sio, superio_exit P a s)"

text \<open>
  \<open>nct610xd_find\<close>. The chip id is read a second time as an argument of the \<open>pr_info\<close>
  that reports the chip; the messages themselves are not modelled.
\<close>

definition nct610xd_find ::
  "'h ports \<Rightarrow> int \<Rightarrow> nct610xd_sio \<Rightarrow> 'h machine \<Rightarrow> int \<times> nct610xd_sio \<times> 'h machine" where
  "nct610xd_find P a sio s =
     (case superio_enter P a s of
        (err, s1) \<Rightarrow>
          if err \<noteq> 0 then (err, sio, s1)
          else
            (case superio_inw P a SIO_CHIPID s1 of
               (val, s2) \<Rightarrow>
                 let devid = (word_of_int val :: u16) in
                 if uint devid \<noteq> SIO_NCT610XD_ID then nct610xd_find_err P a (- ENODEV) sio s2
                 else
                   let sio1 = sio\<lparr>type := nct610xd\<rparr>;
                       sio2 = sio1\<lparr>addr := a\<rparr>
                   in
                     (case superio_inw P a SIO_CHIPID s2 of
                        (logged, s3) \<Rightarrow>
                          (case superio_inb P a SIO_GPIO_ENABLE
                                  (superio_select P a SIO_LD_GPIO s3) of
                             (v, s4) \<Rightarrow>
                               let gpio_cfg = (word_of_int v :: u8);
                                   gpio_cfg = (ucast ((ucast gpio_cfg :: c_int) OR 0x10) :: u8);
                                   s5 = superio_outb P a SIO_GPIO_ENABLE (uint gpio_cfg) s4
                               in
                                 (case superio_inb P a SIO_GPIO_ENABLE s5 of
                                    (w, s6) \<Rightarrow>
                                      let gpio_cfg = (word_of_int w :: u8) in
                                      if (ucast gpio_cfg :: c_int) AND 0x10 = 0
                                      then nct610xd_find_err P a EPERM sio2 s6
                                      else nct610xd_find_err P a 0 sio2 s6)))))"

subsection \<open>Module initialisation\<close>

text \<open>
  The outcomes of the platform-bus calls are a parameter: what
  \<open>platform_driver_register\<close>, \<open>platform_device_alloc\<close>, \<open>platform_device_add_data\<close>
  and \<open>platform_device_add\<close> return.
\<close>

record platform =
  driver_register_ret :: int
  device_alloc_ok :: bool
  device_add_data_ret :: int
  device_add_ret :: int

definition platform_call :: "event \<Rightarrow> 'h machine \<Rightarrow> 'h machine" where
  "platform_call e s = s\<lparr>trace := trace s @ [e]\<rparr>"

definition nct610xd_gpio_device_add ::
  "platform \<Rightarrow> nct610xd_sio \<Rightarrow> 'h machine \<Rightarrow> int \<times> 'h machine" where
  "nct610xd_gpio_device_add E sio s =
     (let s1 = platform_call DeviceAlloc s in
      if \<not> device_alloc_ok E then (- ENOMEM, s1)
      else
        let s2 = platform_call (DeviceAddData sio) s1; err = device_add_data_ret E in
        if err \<noteq> 0 then (err, platform_call DevicePut s2)
        else
          let s3 = platform_call DeviceAdd s2; err = device_add_ret E in
          if err \<noteq> 0 then (err, platform_call DevicePut s3)
          else (0, s3))"

text \<open>
  \<open>nct610xd_gpio_init\<close>. Its \<open>struct nct610xd_sio sio\<close> is an uninitialised local: the
  model takes its initial contents as the argument \<open>sio\<close>. The second \<open>nct610xd_find\<close>
  runs only when the first returned nonzero (\<open>&&\<close>).
\<close>

definition nct610xd_gpio_init ::
  "'h ports \<Rightarrow> platform \<Rightarrow> nct610xd_sio \<Rightarrow> 'h machine \<Rightarrow> int \<times> 'h machine" where
  "nct610xd_gpio_init P E sio s =
     (case nct610xd_find P 0x2e sio s of
        (r1, sio1, s1) \<Rightarrow>
          (case (if r1 \<noteq> 0 then nct610xd_find P 0x4e sio1 s1 else (0, sio1, s1)) of
             (r2, sio2, s2) \<Rightarrow>
               if r1 \<noteq> 0 \<and> r2 \<noteq> 0 then (- ENODEV, s2)
               else
                 let s3 = platform_call DriverRegister s2; err = driver_register_ret E in
                 if err = 0 then
                   (case nct610xd_gpio_device_add E sio2 s3 of
                      (err, s4) \<Rightarrow>
                        if err \<noteq> 0 then (err, platform_call DriverUnregister s4)
                        else (err, s4))
                 else (err, s3)))"

subsection \<open>Two hardware models\<close>

text \<open>
  A scripted bus: every read takes the next byte of a script (a floating bus, \<open>0xFF\<close>,
  once the script is used up); writes have no effect on it. It reproduces any run of
  the driver from the bytes the hardware answered.
\<close>

definition scripted :: "u8 list ports" where
  "scripted =
     \<lparr>hw_outb = (\<lambda>v port h. h),
      hw_inb = (\<lambda>port h. case h of [] \<Rightarrow> (0xFF, []) | x # xs \<Rightarrow> (x, xs))\<rparr>"

text \<open>
  A simulated Super-I/O chip at base address \<open>a\<close>, in which a register read returns the
  last value written to it. The chip takes register accesses only in configuration
  mode, which the unlock key written twice to the index port enters and the lock key
  leaves; the index port selects the register that the data port reads and writes.
\<close>

record sio_chip =
  unlocked :: bool
  armed :: bool
  index :: u8
  regs :: "u8 \<Rightarrow> u8"

definition chip_outb :: "int \<Rightarrow> u8 \<Rightarrow> int \<Rightarrow> sio_chip \<Rightarrow> sio_chip" where
  "chip_outb a v port c =
     (if port = a then
        (if unlocked c then
           (if v = 0xAA then c\<lparr>unlocked := False, armed := False\<rparr> else c\<lparr>index := v\<rparr>)
         else if v = 0x87 then
           (if armed c then c\<lparr>unlocked := True, armed := False\<rparr> else c\<lparr>armed := True\<rparr>)
         else c\<lparr>armed := False\<rparr>)
      else if port = a + 1 then
        (if unlocked c then c\<lparr>regs := (regs c)(index c := v)\<rparr> else c)
      else c)"

definition chip_inb :: "int \<Rightarrow> int \<Rightarrow> sio_chip \<Rightarrow> u8 \<times> sio_chip" where
  "chip_inb a port c =
     (if port = a + 1 \<and> unlocked c then (regs c (index c), c) else (0xFF, c))"

definition sim_chip :: "int \<Rightarrow> sio_chip ports" where
  "sim_chip a = \<lparr>hw_outb = chip_outb a, hw_inb = chip_inb a\<rparr>"

subsection \<open>Vocabulary for traces\<close>

text \<open>
  The port transactions of the Super-I/O protocol at base address \<open>a\<close>: opening a
  session, selecting the GPIO logical device, reading register \<open>r\<close> (the byte \<open>v\<close>
  came back), writing \<open>v\<close> to register \<open>r\<close>, closing the session.
\<close>

definition enter_events :: "int \<Rightarrow> event list" where
  "enter_events a = [Request a 2, Outb 0x87 a, Outb 0x87 a]"

definition select_events :: "int \<Rightarrow> event list" where
  "select_events a = [Outb 0x07 a, Outb 0x07 (a + 1)]"

definition read_events :: "int \<Rightarrow> u8 \<Rightarrow> u8 \<Rightarrow> event list" where
  "read_events a r v = [Outb r a, Inb (a + 1) v]"

definition write_events :: "int \<Rightarrow> u8 \<Rightarrow> u8 \<Rightarrow> event list" where
  "write_events a r v = [Outb r a, Outb v (a + 1)]"

definition exit_events :: "int \<Rightarrow> event list" where
  "exit_events a = [Outb 0xAA a, Release a 2]"

text \<open>
  The two transcripts of \<open>nct610xd_find\<close> at \<open>a\<close> once the session is open: the chip
  id read as \<open>hi\<close>, \<open>lo\<close> and found foreign; the chip id read (and read again for the
  log), the GPIO logical device selected, the enable register read as \<open>g\<close>, written
  back with \<open>0x10\<close> set and read again as \<open>g'\<close>.
\<close>

definition mismatch_events :: "int \<Rightarrow> u8 \<Rightarrow> u8 \<Rightarrow> event list" where
  "mismatch_events a hi lo =
     enter_events a @ read_events a 0x20 hi @ read_events a 0x21 lo @ exit_events a"

definition match_events :: "int \<Rightarrow> u8 \<Rightarrow> u8 \<Rightarrow> u8 \<Rightarrow> u8 \<Rightarrow> u8 \<Rightarrow> u8 \<Rightarrow> event list" where
  "match_events a hi lo hi' lo' g g' =
     enter_events a @ read_events a 0x20 hi @ read_events a 0x21 lo @
     read_events a 0x20 hi' @ read_events a 0x21 lo' @
     select_events a @ read_events a 0x30 g @ write_events a 0x30 (g OR 0x10) @
     read_events a 0x30 g' @ exit_events a"

text \<open>
  \<open>closes a es\<close>: \<open>es\<close> is port traffic only and ends with the lock key written to the
  index port followed by the release of the region. \<open>session a es\<close>: \<open>es\<close> is one
  whole session at \<open>a\<close>, from the granted request and the two unlock keys to that end.
\<close>

fun closes :: "int \<Rightarrow> event list \<Rightarrow> bool" where
  "closes a [] \<longleftrightarrow> False"
| "closes a (e # es) \<longleftrightarrow>
     (case e of
        Outb v p \<Rightarrow> if es = [Release a 2] then v = 0xAA \<and> p = a else closes a es
      | Inb p v \<Rightarrow> closes a es
      | _ \<Rightarrow> False)"

definition session :: "int \<Rightarrow> event list \<Rightarrow> bool" where
  "session a es \<longleftrightarrow> take 3 es = enter_events a \<and> closes a (drop 3 es)"

text \<open>
  \<open>bracketed a s s'\<close>: going from \<open>s\<close> to \<open>s'\<close> the driver added exactly one whole
  session at \<open>a\<close> to the trace and holds no region that it did not hold before.
\<close>

definition bracketed :: "int \<Rightarrow> 'h machine \<Rightarrow> 'h machine \<Rightarrow> bool" where
  "bracketed a s s' \<longleftrightarrow>
     regions s' = regions s \<and>
     take (length (trace s)) (trace s') = trace s \<and>
     session a (drop (length (trace s)) (trace s'))"

text \<open>
  What one probe of a candidate address \<open>a\<close> leaves in the trace. \<open>probe_found\<close>: the
  chip id read \<open>0xd282\<close> and the enable register read back with bit \<open>0x10\<close> set.
  \<open>probe_failed\<close>: the region was refused, or the chip id was foreign, or the chip
  id matched and the enable register read back without bit \<open>0x10\<close>.
  \<open>handed_over E x pf\<close>: \<open>pf\<close> are calls into the platform bus only, the first of them
  the registration of the driver, every platform data passed is the record \<open>x\<close>, and it
  is passed whenever the driver registered and the device was allocated.
\<close>

definition probe_found :: "int \<Rightarrow> event list \<Rightarrow> bool" where
  "probe_found a es \<longleftrightarrow>
     (\<exists>hi' lo' g g'. es = match_events a 0xd2 0x82 hi' lo' g g' \<and> g' AND 0x10 \<noteq> 0)"

definition probe_failed :: "int \<Rightarrow> event list \<Rightarrow> bool" where
  "probe_failed a es \<longleftrightarrow>
     es = [Denied a 2] \<or>
     (\<exists>hi lo. (hi \<noteq> 0xd2 \<or> lo \<noteq> 0x82) \<and> es = mismatch_events a hi lo) \<or>
     (\<exists>hi' lo' g g'. es = match_events a 0xd2 0x82 hi' lo' g g' \<and> g' AND 0x10 = 0)"

definition registration_event :: "nct610xd_sio \<Rightarrow> event \<Rightarrow> bool" where
  "registration_event x e \<longleftrightarrow>
     (case e of
        DriverRegister \<Rightarrow> True
      | DriverUnregister \<Rightarrow> True
      | DeviceAlloc \<Rightarrow> True
      | DeviceAddData y \<Rightarrow> y = x
      | DeviceAdd \<Rightarrow> True
      | DevicePut \<Rightarrow> True
      | _ \<Rightarrow> False)"

definition handed_over :: "platform \<Rightarrow> nct610xd_sio \<Rightarrow> event list \<Rightarrow> bool" where
  "handed_over E x pf \<longleftrightarrow>
     take 1 pf = [DriverRegister] \<and>
     list_all (registration_event x) pf \<and>
     (driver_register_ret E = 0 \<and> device_alloc_ok E \<longrightarrow> DeviceAddData x \<in> set pf)"

subsection \<open>Concrete machines\<close>

text \<open>
  A machine on which nobody holds an I/O region, one on which another driver holds the
  two ports at \<open>0x2e\<close>, and the \<open>sio\<close> record of a chip found at \<open>0x2e\<close>.
\<close>

definition idle :: "'h \<Rightarrow> 'h machine" where
  "idle h = \<lparr>regions = [], trace = [], hw = h\<rparr>"

definition contended :: "'h \<Rightarrow> 'h machine" where
  "contended h = \<lparr>regions = [(0x2e, 2)], trace = [], hw = h\<rparr>"

definition board_sio :: nct610xd_sio where
  "board_sio = \<lparr>addr = 0x2e, type = nct610xd\<rparr>"

text \<open>A platform bus on which every call succeeds.\<close>

definition platform_ok :: platform where
  "platform_ok = \<lparr>driver_register_ret = 0, device_alloc_ok = True, device_add_data_ret = 0,
     device_add_ret = 0\<rparr>"

text \<open>A simulated chip after reset: locked, every register zero.\<close>

definition blank_chip :: sio_chip where
  "blank_chip = \<lparr>unlocked = False, armed = False, index = 0, regs = (\<lambda>r. 0)\<rparr>"

section \<open>Properties\<close>

subsection \<open>Integer promotion and truncation\<close>

lemma reg8: "(scast (w :: 32 word) :: u8) = ucast w"
  by (rule bit_word_eqI) (auto simp add: bit_simps)

lemma promote_or:
  "(ucast ((ucast (d :: u8) :: c_int) OR push_bit n 1) :: u8) = d OR push_bit n 1"
  by (rule bit_word_eqI) (auto simp add: bit_simps)

lemma promote_and_not:
  "(ucast ((ucast (d :: u8) :: c_int) AND NOT (push_bit n 1)) :: u8) = d AND NOT (push_bit n 1)"
  by (rule bit_word_eqI) (auto simp add: bit_simps)

lemma bit_promote: "bit (ucast (d :: u8) :: c_int) n = bit d n"
  by (auto simp add: bit_simps dest: bit_imp_le_length)

lemma promote_test: "((ucast (d :: u8) :: c_int) AND push_bit n 1 \<noteq> 0) = bit d n"
  using bit_iff_and_push_bit_not_eq_0 bit_promote by blast

lemma promote_test_0: "((ucast (d :: u8) :: c_int) AND push_bit n 1 = 0) = (\<not> bit d n)"
  using promote_test by blast

lemma and_push_bit_1:
  "(w :: 'a::len word) AND push_bit n 1 = (if bit w n then push_bit n 1 else 0)"
  by (rule bit_word_eqI) (auto simp add: bit_simps)

lemma sint_push_bit_1: "n < 8 \<Longrightarrow> sint (push_bit n 1 :: c_int) = 2 ^ n"
  by (rule bit_eqI) (auto simp add: bit_simps)

lemma promote_mask:
  "n < 8 \<Longrightarrow>
     sint ((ucast (d :: u8) :: c_int) AND push_bit n 1) = (if bit d n then 2 ^ n else 0)"
  by (simp add: and_push_bit_1 bit_promote sint_push_bit_1 del: push_bit_of_1)

lemma promote_or_16: "(ucast ((ucast (g :: u8) :: c_int) OR 0x10) :: u8) = g OR 0x10"
  using promote_or [of g 4] by simp

lemma promote_test_16: "((ucast (g :: u8) :: c_int) AND 0x10 = 0) = (g AND 0x10 = 0)"
proof -
  have "((ucast g :: c_int) AND 0x10 = 0) = (\<not> bit g 4)"
    using promote_test_0 [of g 4] by simp
  moreover have "(g AND 0x10 = 0) = (\<not> bit g 4)"
    using and_push_bit_1 [of g 4] by simp
  ultimately show ?thesis by simp
qed

lemma chip_id_hi:
  "(ucast (drop_bit 8 (word_of_int (push_bit 8 (uint (hi :: u8)) OR uint (lo :: u8)) :: u16))
      :: u8) = hi"
  by (rule bit_word_eqI) (auto simp add: bit_simps dest: bit_imp_le_length)

lemma chip_id_lo:
  "(ucast (word_of_int (push_bit 8 (uint (hi :: u8)) OR uint (lo :: u8)) :: u16) :: u8) = lo"
  by (rule bit_word_eqI) (auto simp add: bit_simps)

lemma chip_id_match:
  "uint (word_of_int (push_bit 8 (uint (hi :: u8)) OR uint (lo :: u8)) :: u16) = 0xd282
     \<longleftrightarrow> hi = 0xd2 \<and> lo = 0x82"
proof
  assume "uint (word_of_int (push_bit 8 (uint hi) OR uint lo) :: u16) = 0xd282"
  then have e: "(word_of_int (push_bit 8 (uint hi) OR uint lo) :: u16) = 0xd282"
    by (metis word_of_int_uint word_of_int_numeral)
  have "hi = ucast (drop_bit 8 (0xd282 :: u16))"
    using chip_id_hi [of hi lo] by (simp only: e)
  moreover have "lo = ucast (0xd282 :: u16)"
    using chip_id_lo [of hi lo] by (simp only: e)
  ultimately show "hi = 0xd2 \<and> lo = 0x82" by simp
next
  assume "hi = 0xd2 \<and> lo = 0x82"
  then show "uint (word_of_int (push_bit 8 (uint hi) OR uint lo) :: u16) = 0xd282" by simp
qed

subsection \<open>Entering a session\<close>

lemmas driver_defs =
  superio_enter_def superio_select_def superio_exit_def superio_inb_def superio_outb_def
  superio_inw_def request_muxed_region_def release_region_def outb_def inb_def
  SIO_LDSEL_def SIO_CHIPID_def SIO_GPIO_ENABLE_def SIO_LD_GPIO_def SIO_UNLOCK_KEY_def
  SIO_LOCK_KEY_def SIO_NCT610XD_ID_def gpio_dir_def gpio_data_def

lemmas events_defs =
  enter_events_def select_events_def read_events_def write_events_def exit_events_def

lemma superio_enter_ok_iff:
  "fst (superio_enter P b s) = 0 \<longleftrightarrow> \<not> list_ex (overlaps b 2) (regions s)"
  by (simp add: superio_enter_def request_muxed_region_def EBUSY_def)

lemma superio_enter_busy_iff:
  "fst (superio_enter P b s) = - EBUSY \<longleftrightarrow> list_ex (overlaps b 2) (regions s)"
  by (simp add: superio_enter_def request_muxed_region_def EBUSY_def)

lemmas eval_defs =
  idle_def contended_def board_sio_def scripted_def nct610xd_gpio_bank_def NCT610XD_GPIO_BANK_def
  overlaps_def EPERM_def EBUSY_def ENODEV_def ENOMEM_def

text \<open>
  C6. \<open>superio_enter\<close>: when the two-port region is already taken it returns \<open>-EBUSY\<close>
  (-16) and the only thing that happened is the refused request, no port is written;
  when the region is free it takes it, writes the unlock key \<open>0x87\<close> to the index port
  twice in succession, and returns 0.
\<close>

theorem superio_enter_busy_or_unlock:
  "(list_ex (overlaps b 2) (regions s) \<longrightarrow>
      superio_enter P b s = (- EBUSY, s\<lparr>trace := trace s @ [Denied b 2]\<rparr>) \<and> - EBUSY = - 16) \<and>
   (\<not> list_ex (overlaps b 2) (regions s) \<longrightarrow>
      fst (superio_enter P b s) = 0 \<and>
      regions (snd (superio_enter P b s)) = (b, 2) # regions s \<and>
      trace (snd (superio_enter P b s)) =
        trace s @ [Request b 2, Outb 0x87 b, Outb 0x87 b] \<and>
      hw (snd (superio_enter P b s)) = hw_outb P 0x87 b (hw_outb P 0x87 b (hw s)))"
  by (simp add: superio_enter_def request_muxed_region_def outb_def
      SIO_UNLOCK_KEY_def EBUSY_def)

theorem superio_enter_busy_or_unlock_witness:
  "list_ex (overlaps 0x2e 2) [(0x2f, 4)] \<and>
   superio_enter scripted 0x2e \<lparr>regions = [(0x2f, 4)], trace = [], hw = []\<rparr> =
     (- 16, \<lparr>regions = [(0x2f, 4)], trace = [Denied 0x2e 2], hw = []\<rparr>) \<and>
   \<not> list_ex (overlaps 0x2e 2) [] \<and>
   fst (superio_enter scripted 0x2e \<lparr>regions = [], trace = [], hw = []\<rparr>) = 0 \<and>
   trace (snd (superio_enter scripted 0x2e \<lparr>regions = [], trace = [], hw = []\<rparr>)) =
     [Request 0x2e 2, Outb 0x87 0x2e, Outb 0x87 0x2e]"
  using superio_enter_busy_or_unlock
          [where b = "0x2e" and P = scripted
             and s = "\<lparr>regions = [(0x2f, 4)], trace = [], hw = []\<rparr>"]
        superio_enter_busy_or_unlock
          [where b = "0x2e" and P = scripted
             and s = "\<lparr>regions = [], trace = [], hw = []\<rparr>"]
  by (simp add: overlaps_def)

subsection \<open>Operations that find the region taken\<close>

lemma busy_runs:
  assumes "list_ex (overlaps (addr sio) 2) (regions s)"
  shows "nct610xd_gpio_get_direction P sio bank offset s =
           (- EBUSY, s\<lparr>trace := trace s @ [Denied (addr sio) 2]\<rparr>)"
    and "nct610xd_gpio_direction_in P sio bank offset s =
           (- EBUSY, s\<lparr>trace := trace s @ [Denied (addr sio) 2]\<rparr>)"
    and "nct610xd_gpio_get P sio bank offset s =
           (- EBUSY, s\<lparr>trace := trace s @ [Denied (addr sio) 2]\<rparr>)"
    and "nct610xd_gpio_direction_out P sio bank offset v s =
           (- EBUSY, s\<lparr>trace := trace s @ [Denied (addr sio) 2]\<rparr>)"
    and "nct610xd_gpio_set P sio bank offset v s =
           s\<lparr>trace := trace s @ [Denied (addr sio) 2]\<rparr>"
  using assms
  by (simp_all add: nct610xd_gpio_get_direction_def nct610xd_gpio_direction_in_def
      nct610xd_gpio_get_def nct610xd_gpio_direction_out_def nct610xd_gpio_set_def
      superio_enter_def request_muxed_region_def EBUSY_def)

lemma find_busy:
  assumes "list_ex (overlaps a 2) (regions s)"
  shows "nct610xd_find P a sio s = (- EBUSY, sio, s\<lparr>trace := trace s @ [Denied a 2]\<rparr>)"
  using assms
  by (simp add: nct610xd_find_def superio_enter_def request_muxed_region_def EBUSY_def)

subsection \<open>Operations that enter: the exact transcripts\<close>

lemma get_direction_run:
  assumes "\<not> list_ex (overlaps (addr sio) 2) (regions s)"
  shows "\<exists>d. fst (nct610xd_gpio_get_direction P sio bank offset s) =
               sint ((ucast d :: c_int) AND push_bit offset 1) \<and>
             trace (snd (nct610xd_gpio_get_direction P sio bank offset s)) =
               trace s @ enter_events (addr sio) @ select_events (addr sio) @
               read_events (addr sio) (ucast (regbase bank)) d @ exit_events (addr sio)"
    and "regions (snd (nct610xd_gpio_get_direction P sio bank offset s)) = regions s"
  using assms
  by (simp_all add: nct610xd_gpio_get_direction_def driver_defs events_defs reg8 split_beta)

lemma direction_in_run:
  assumes "\<not> list_ex (overlaps (addr sio) 2) (regions s)"
  shows "\<exists>d. trace (snd (nct610xd_gpio_direction_in P sio bank offset s)) =
               trace s @ enter_events (addr sio) @ select_events (addr sio) @
               read_events (addr sio) (ucast (regbase bank)) d @
               write_events (addr sio) (ucast (regbase bank)) (d OR push_bit offset 1) @
               exit_events (addr sio)"
    and "fst (nct610xd_gpio_direction_in P sio bank offset s) = 0"
    and "regions (snd (nct610xd_gpio_direction_in P sio bank offset s)) = regions s"
  using assms
  by (simp_all add: nct610xd_gpio_direction_in_def driver_defs events_defs reg8 split_beta
      Let_def promote_or del: push_bit_of_1)

lemma get_run:
  assumes "\<not> list_ex (overlaps (addr sio) 2) (regions s)"
  shows "\<exists>d. fst (nct610xd_gpio_get P sio bank offset s) = (if bit d offset then 1 else 0) \<and>
             trace (snd (nct610xd_gpio_get P sio bank offset s)) =
               trace s @ enter_events (addr sio) @ select_events (addr sio) @
               read_events (addr sio) (ucast (regbase bank + 1)) d @ exit_events (addr sio)"
    and "regions (snd (nct610xd_gpio_get P sio bank offset s)) = regions s"
  using assms
  by (simp_all add: nct610xd_gpio_get_def driver_defs events_defs reg8 split_beta Let_def
      promote_test promote_test_0 del: push_bit_of_1)

lemma direction_out_run:
  assumes "\<not> list_ex (overlaps (addr sio) 2) (regions s)"
  shows "\<exists>d r. trace (snd (nct610xd_gpio_direction_out P sio bank offset v s)) =
               trace s @ enter_events (addr sio) @ select_events (addr sio) @
               read_events (addr sio) (ucast (regbase bank + 1)) d @
               write_events (addr sio) (ucast (regbase bank + 1))
                 (if v \<noteq> 0 then d OR push_bit offset 1 else d AND NOT (push_bit offset 1)) @
               read_events (addr sio) (ucast (regbase bank)) r @
               write_events (addr sio) (ucast (regbase bank)) (r AND NOT (push_bit offset 1)) @
               exit_events (addr sio)"
    and "fst (nct610xd_gpio_direction_out P sio bank offset v s) = 0"
    and "regions (snd (nct610xd_gpio_direction_out P sio bank offset v s)) = regions s"
  using assms
  by (simp_all add: nct610xd_gpio_direction_out_def driver_defs events_defs reg8 split_beta
      Let_def promote_or promote_and_not del: push_bit_of_1)

lemma set_run:
  assumes "\<not> list_ex (overlaps (addr sio) 2) (regions s)"
  shows "\<exists>d. trace (nct610xd_gpio_set P sio bank offset v s) =
               trace s @ enter_events (addr sio) @ select_events (addr sio) @
               read_events (addr sio) (ucast (regbase bank + 1)) d @
               write_events (addr sio) (ucast (regbase bank + 1))
                 (if v \<noteq> 0 then d OR push_bit offset 1 else d AND NOT (push_bit offset 1)) @
               exit_events (addr sio)"
    and "regions (nct610xd_gpio_set P sio bank offset v s) = regions s"
  using assms
  by (simp_all add: nct610xd_gpio_set_def driver_defs events_defs reg8 split_beta
      Let_def promote_or promote_and_not del: push_bit_of_1)

lemma find_run:
  assumes "\<not> list_ex (overlaps a 2) (regions s)"
  shows "\<exists>hi lo.
           (if hi = 0xd2 \<and> lo = 0x82 then
              \<exists>hi' lo' g g'.
                fst (nct610xd_find P a sio s) = (if g' AND 0x10 = 0 then EPERM else 0) \<and>
                fst (snd (nct610xd_find P a sio s)) = sio\<lparr>type := nct610xd, addr := a\<rparr> \<and>
                trace (snd (snd (nct610xd_find P a sio s))) =
                  trace s @ match_events a hi lo hi' lo' g g'
            else
              fst (nct610xd_find P a sio s) = - ENODEV \<and>
              fst (snd (nct610xd_find P a sio s)) = sio \<and>
              trace (snd (snd (nct610xd_find P a sio s))) = trace s @ mismatch_events a hi lo)"
    and "regions (snd (snd (nct610xd_find P a sio s))) = regions s"
proof -
  obtain hi h1 where r1:
    "hw_inb P (a + 1) (hw_outb P 0x20 a (hw_outb P 0x87 a (hw_outb P 0x87 a (hw s)))) = (hi, h1)"
    by (cases "hw_inb P (a + 1) (hw_outb P 0x20 a (hw_outb P 0x87 a (hw_outb P 0x87 a (hw s))))")
  obtain lo h2 where r2: "hw_inb P (a + 1) (hw_outb P 0x21 a h1) = (lo, h2)"
    by (cases "hw_inb P (a + 1) (hw_outb P 0x21 a h1)")
  show "\<exists>hi lo.
           (if hi = 0xd2 \<and> lo = 0x82 then
              \<exists>hi' lo' g g'.
                fst (nct610xd_find P a sio s) = (if g' AND 0x10 = 0 then EPERM else 0) \<and>
                fst (snd (nct610xd_find P a sio s)) = sio\<lparr>type := nct610xd, addr := a\<rparr> \<and>
                trace (snd (snd (nct610xd_find P a sio s))) =
                  trace s @ match_events a hi lo hi' lo' g g'
            else
              fst (nct610xd_find P a sio s) = - ENODEV \<and>
              fst (snd (nct610xd_find P a sio s)) = sio \<and>
              trace (snd (snd (nct610xd_find P a sio s))) = trace s @ mismatch_events a hi lo)"
    using assms r1 r2
    apply (rule_tac x = hi in exI, rule_tac x = lo in exI)
    apply (simp add: nct610xd_find_def nct610xd_find_err_def driver_defs events_defs
        mismatch_events_def match_events_def chip_id_match split_beta Let_def
        promote_or_16 promote_test_16)
    done
  show "regions (snd (snd (nct610xd_find P a sio s))) = regions s"
    using assms
    by (simp add: nct610xd_find_def nct610xd_find_err_def driver_defs split_beta Let_def)
qed

subsection \<open>Sessions are closed\<close>

lemma bracketedI:
  assumes "regions s' = regions s" and "trace s' = trace s @ es" and "session a es"
  shows "bracketed a s s'"
  using assms by (simp add: bracketed_def)

lemma session_shape:
  "closes a es \<Longrightarrow> session a (enter_events a @ es)"
  by (simp add: session_def enter_events_def)

lemma closes_not_release: "closes a es \<Longrightarrow> es \<noteq> [Release b n]"
  by auto

lemma closes_exit: "closes a (exit_events a)"
  by (simp add: exit_events_def)

lemma closes_select: "closes a es \<Longrightarrow> closes a (select_events a @ es)"
  by (simp add: select_events_def closes_not_release)

lemma closes_read: "closes a es \<Longrightarrow> closes a (read_events a r v @ es)"
  by (simp add: read_events_def closes_not_release)

lemma closes_write: "closes a es \<Longrightarrow> closes a (write_events a r v @ es)"
  by (simp add: write_events_def closes_not_release)

lemmas closes_intros = closes_exit closes_select closes_read closes_write

text \<open>
  C1. Every operation that entered a session leaves it again before it returns: for
  \<open>nct610xd_gpio_get_direction\<close>, \<open>nct610xd_gpio_direction_in\<close>, \<open>nct610xd_gpio_get\<close>,
  \<open>nct610xd_gpio_direction_out\<close>, \<open>nct610xd_gpio_set\<close> and \<open>nct610xd_find\<close>, on any
  hardware, when \<open>superio_enter\<close> succeeded the events of the call are one whole
  session that ends with the lock key \<open>0xAA\<close> written to the index port and the region
  released, and the regions held afterwards are those held before. This covers every
  path of \<open>nct610xd_find\<close>, the chip-id mismatch and the failed enable check included.
\<close>

theorem entered_sessions_are_closed:
  "(fst (superio_enter P (addr sio) s) = 0 \<longrightarrow>
      bracketed (addr sio) s (snd (nct610xd_gpio_get_direction P sio bank offset s)) \<and>
      bracketed (addr sio) s (snd (nct610xd_gpio_direction_in P sio bank offset s)) \<and>
      bracketed (addr sio) s (snd (nct610xd_gpio_get P sio bank offset s)) \<and>
      bracketed (addr sio) s (snd (nct610xd_gpio_direction_out P sio bank offset v s)) \<and>
      bracketed (addr sio) s (nct610xd_gpio_set P sio bank offset v s)) \<and>
   (fst (superio_enter P a s) = 0 \<longrightarrow>
      bracketed a s (snd (snd (nct610xd_find P a sio' s))))"
proof (intro conjI impI)
  assume "fst (superio_enter P (addr sio) s) = 0"
  then have free: "\<not> list_ex (overlaps (addr sio) 2) (regions s)"
    by (simp add: superio_enter_ok_iff)
  from get_direction_run(1) [OF free, of P bank offset] obtain d where
    "trace (snd (nct610xd_gpio_get_direction P sio bank offset s)) =
       trace s @ enter_events (addr sio) @ select_events (addr sio) @
       read_events (addr sio) (ucast (regbase bank)) d @ exit_events (addr sio)"
    by blast
  then show "bracketed (addr sio) s (snd (nct610xd_gpio_get_direction P sio bank offset s))"
    by (rule bracketedI [OF get_direction_run(2) [OF free]])
      (intro session_shape closes_intros)
  from direction_in_run(1) [OF free, of P bank offset] obtain d where
    "trace (snd (nct610xd_gpio_direction_in P sio bank offset s)) =
       trace s @ enter_events (addr sio) @ select_events (addr sio) @
       read_events (addr sio) (ucast (regbase bank)) d @
       write_events (addr sio) (ucast (regbase bank)) (d OR push_bit offset 1) @
       exit_events (addr sio)"
    by blast
  then show "bracketed (addr sio) s (snd (nct610xd_gpio_direction_in P sio bank offset s))"
    by (rule bracketedI [OF direction_in_run(3) [OF free]])
      (intro session_shape closes_intros)
  from get_run(1) [OF free, of P bank offset] obtain d where
    "trace (snd (nct610xd_gpio_get P sio bank offset s)) =
       trace s @ enter_events (addr sio) @ select_events (addr sio) @
       read_events (addr sio) (ucast (regbase bank + 1)) d @ exit_events (addr sio)"
    by blast
  then show "bracketed (addr sio) s (snd (nct610xd_gpio_get P sio bank offset s))"
    by (rule bracketedI [OF get_run(2) [OF free]])
      (intro session_shape closes_intros)
  from direction_out_run(1) [OF free, of P bank offset v] obtain d r where
    "trace (snd (nct610xd_gpio_direction_out P sio bank offset v s)) =
       trace s @ enter_events (addr sio) @ select_events (addr sio) @
       read_events (addr sio) (ucast (regbase bank + 1)) d @
       write_events (addr sio) (ucast (regbase bank + 1))
         (if v \<noteq> 0 then d OR push_bit offset 1 else d AND NOT (push_bit offset 1)) @
       read_events (addr sio) (ucast (regbase bank)) r @
       write_events (addr sio) (ucast (regbase bank)) (r AND NOT (push_bit offset 1)) @
       exit_events (addr sio)"
    by blast
  then show "bracketed (addr sio) s (snd (nct610xd_gpio_direction_out P sio bank offset v s))"
    by (rule bracketedI [OF direction_out_run(3) [OF free]])
      (intro session_shape closes_intros)
  from set_run(1) [OF free, of P bank offset v] obtain d where
    "trace (nct610xd_gpio_set P sio bank offset v s) =
       trace s @ enter_events (addr sio) @ select_events (addr sio) @
       read_events (addr sio) (ucast (regbase bank + 1)) d @
       write_events (addr sio) (ucast (regbase bank + 1))
         (if v \<noteq> 0 then d OR push_bit offset 1 else d AND NOT (push_bit offset 1)) @
       exit_events (addr sio)"
    by blast
  then show "bracketed (addr sio) s (nct610xd_gpio_set P sio bank offset v s)"
    by (rule bracketedI [OF set_run(2) [OF free]])
      (intro session_shape closes_intros)
next
  assume "fst (superio_enter P a s) = 0"
  then have free: "\<not> list_ex (overlaps a 2) (regions s)"
    by (simp add: superio_enter_ok_iff)
  from find_run(1) [OF free, of P sio'] obtain hi lo where
    *: "if hi = 0xd2 \<and> lo = 0x82 then
          \<exists>hi' lo' g g'.
            fst (nct610xd_find P a sio' s) = (if g' AND 0x10 = 0 then EPERM else 0) \<and>
            fst (snd (nct610xd_find P a sio' s)) = sio'\<lparr>type := nct610xd, addr := a\<rparr> \<and>
            trace (snd (snd (nct610xd_find P a sio' s))) =
              trace s @ match_events a hi lo hi' lo' g g'
        else
          fst (nct610xd_find P a sio' s) = - ENODEV \<and>
          fst (snd (nct610xd_find P a sio' s)) = sio' \<and>
          trace (snd (snd (nct610xd_find P a sio' s))) = trace s @ mismatch_events a hi lo"
    by blast
  show "bracketed a s (snd (snd (nct610xd_find P a sio' s)))"
  proof (cases "hi = 0xd2 \<and> lo = 0x82")
    case True
    with * obtain hi' lo' g g' where
      "trace (snd (snd (nct610xd_find P a sio' s))) = trace s @ match_events a hi lo hi' lo' g g'"
      by auto
    then show ?thesis
      unfolding match_events_def
      by (rule bracketedI [OF find_run(2) [OF free]]) (intro session_shape closes_intros)
  next
    case False
    with * have
      "trace (snd (snd (nct610xd_find P a sio' s))) = trace s @ mismatch_events a hi lo"
      by auto
    then show ?thesis
      unfolding mismatch_events_def
      by (rule bracketedI [OF find_run(2) [OF free]]) (intro session_shape closes_intros)
  qed
qed

theorem entered_sessions_are_closed_witness:
  "fst (superio_enter scripted 0x2e (idle [0xd2, 0x82, 0xd2, 0x82, 0x00, 0x00])) = 0 \<and>
   fst (nct610xd_find scripted 0x2e board_sio (idle [0xd2, 0x82, 0xd2, 0x82, 0x00, 0x00])) = EPERM \<and>
   bracketed 0x2e (idle [0xd2, 0x82, 0xd2, 0x82, 0x00, 0x00])
     (snd (snd (nct610xd_find scripted 0x2e board_sio (idle [0xd2, 0x82, 0xd2, 0x82, 0x00, 0x00])))) \<and>
   fst (nct610xd_find scripted 0x2e board_sio (idle [0x12, 0x34])) = - ENODEV \<and>
   bracketed 0x2e (idle [0x12, 0x34])
     (snd (snd (nct610xd_find scripted 0x2e board_sio (idle [0x12, 0x34])))) \<and>
   bracketed 0x2e (idle [0x12, 0x34])
     (nct610xd_gpio_set scripted board_sio (hd nct610xd_gpio_bank) 3 1 (idle [0x12, 0x34]))"
  using entered_sessions_are_closed
          [where P = scripted and a = "0x2e" and sio' = board_sio and sio = board_sio
             and s = "idle [0xd2, 0x82, 0xd2, 0x82, 0x00, 0x00]"]
        entered_sessions_are_closed
          [where P = scripted and a = "0x2e" and sio' = board_sio and sio = board_sio
             and s = "idle [0x12, 0x34]" and bank = "hd nct610xd_gpio_bank"
             and offset = 3 and v = 1]
  by (simp add: superio_enter_ok_iff nct610xd_find_def nct610xd_find_err_def driver_defs
      eval_defs split_beta Let_def)

subsection \<open>The order of the writes of direction_out\<close>

text \<open>
  C4. \<open>nct610xd_gpio_direction_out\<close>, once the session is open and the GPIO logical
  device selected, makes exactly two register writes, in this order: the data register
  (\<open>regbase + 1\<close>), read and written back with bit \<open>offset\<close> set when \<open>value\<close> is
  nonzero and cleared when it is 0, then the direction register (\<open>regbase + 0\<close>), read
  and written back with bit \<open>offset\<close> cleared. For the configured bank, offset 0 and
  value 1 these are a write of \<open>0xF1\<close> with bit 0 set and then a write of \<open>0xF0\<close> with
  bit 0 cleared.
\<close>

theorem direction_out_data_then_direction:
  assumes "fst (superio_enter P (addr sio) s) = 0"
  shows "(\<exists>d r. trace (snd (nct610xd_gpio_direction_out P sio bank offset v s)) =
            trace s @ enter_events (addr sio) @ select_events (addr sio) @
            read_events (addr sio) (ucast (gpio_data (regbase bank))) d @
            write_events (addr sio) (ucast (gpio_data (regbase bank)))
              (if v \<noteq> 0 then d OR push_bit offset 1 else d AND NOT (push_bit offset 1)) @
            read_events (addr sio) (ucast (gpio_dir (regbase bank))) r @
            write_events (addr sio) (ucast (gpio_dir (regbase bank)))
              (r AND NOT (push_bit offset 1)) @
            exit_events (addr sio)) \<and>
         (bank \<in> set nct610xd_gpio_bank \<longrightarrow>
            (\<exists>d r. trace (snd (nct610xd_gpio_direction_out P sio bank 0 1 s)) =
               trace s @ enter_events (addr sio) @ select_events (addr sio) @
               read_events (addr sio) 0xF1 d @ write_events (addr sio) 0xF1 (d OR 1) @
               read_events (addr sio) 0xF0 r @ write_events (addr sio) 0xF0 (r AND NOT 1) @
               exit_events (addr sio)))"
proof -
  from assms have free: "\<not> list_ex (overlaps (addr sio) 2) (regions s)"
    by (simp add: superio_enter_ok_iff)
  show ?thesis
  proof (intro conjI impI)
    show "\<exists>d r. trace (snd (nct610xd_gpio_direction_out P sio bank offset v s)) =
            trace s @ enter_events (addr sio) @ select_events (addr sio) @
            read_events (addr sio) (ucast (gpio_data (regbase bank))) d @
            write_events (addr sio) (ucast (gpio_data (regbase bank)))
              (if v \<noteq> 0 then d OR push_bit offset 1 else d AND NOT (push_bit offset 1)) @
            read_events (addr sio) (ucast (gpio_dir (regbase bank))) r @
            write_events (addr sio) (ucast (gpio_dir (regbase bank)))
              (r AND NOT (push_bit offset 1)) @
            exit_events (addr sio)"
      using direction_out_run(1) [OF free, of P bank offset v]
      by (simp add: gpio_data_def gpio_dir_def)
  next
    assume "bank \<in> set nct610xd_gpio_bank"
    then have rb: "regbase bank = 0xF0"
      by (auto simp add: nct610xd_gpio_bank_def NCT610XD_GPIO_BANK_def)
    show "\<exists>d r. trace (snd (nct610xd_gpio_direction_out P sio bank 0 1 s)) =
               trace s @ enter_events (addr sio) @ select_events (addr sio) @
               read_events (addr sio) 0xF1 d @ write_events (addr sio) 0xF1 (d OR 1) @
               read_events (addr sio) 0xF0 r @ write_events (addr sio) 0xF0 (r AND NOT 1) @
               exit_events (addr sio)"
      using direction_out_run(1) [OF free, of P bank 0 1]
      by (simp add: rb)
  qed
qed

theorem direction_out_data_then_direction_witness:
  "fst (superio_enter scripted 0x2e (idle [0x00, 0xFF])) = 0 \<and>
   hd nct610xd_gpio_bank \<in> set nct610xd_gpio_bank \<and>
   trace (snd (nct610xd_gpio_direction_out scripted board_sio (hd nct610xd_gpio_bank) 0 1
                 (idle [0x00, 0xFF]))) =
     [Request 0x2e 2, Outb 0x87 0x2e, Outb 0x87 0x2e, Outb 0x07 0x2e, Outb 0x07 0x2f,
      Outb 0xF1 0x2e, Inb 0x2f 0x00, Outb 0xF1 0x2e, Outb 0x01 0x2f,
      Outb 0xF0 0x2e, Inb 0x2f 0xFF, Outb 0xF0 0x2e, Outb 0xFE 0x2f,
      Outb 0xAA 0x2e, Release 0x2e 2]"
  using direction_out_data_then_direction
          [where P = scripted and sio = board_sio and s = "idle [0x00, 0xFF]"
             and bank = "hd nct610xd_gpio_bank" and offset = 0 and v = 1]
  by (simp add: nct610xd_gpio_direction_out_def driver_defs eval_defs split_beta Let_def)

subsection \<open>A refused region\<close>

text \<open>
  C7 (as amended). When \<open>superio_enter\<close> fails with \<open>-EBUSY\<close>, the four callbacks that
  return an \<open>int\<close> (\<open>get_direction\<close>, \<open>direction_input\<close>, \<open>get\<close>,
  \<open>direction_output\<close>) return \<open>-EBUSY\<close> to their caller; \<open>nct610xd_gpio_set\<close>, whose
  callback type returns \<open>void\<close>, returns nothing. In all five the refused request is
  the only event: no port is touched.
\<close>

theorem busy_is_reported_where_a_value_is_returned:
  assumes "fst (superio_enter P (addr sio) s) = - EBUSY"
  shows "gpio_chip_call P sio bank (GetDirection offset) s =
           (Some (- EBUSY), s\<lparr>trace := trace s @ [Denied (addr sio) 2]\<rparr>) \<and>
         gpio_chip_call P sio bank (DirectionInput offset) s =
           (Some (- EBUSY), s\<lparr>trace := trace s @ [Denied (addr sio) 2]\<rparr>) \<and>
         gpio_chip_call P sio bank (Get offset) s =
           (Some (- EBUSY), s\<lparr>trace := trace s @ [Denied (addr sio) 2]\<rparr>) \<and>
         gpio_chip_call P sio bank (DirectionOutput offset v) s =
           (Some (- EBUSY), s\<lparr>trace := trace s @ [Denied (addr sio) 2]\<rparr>) \<and>
         gpio_chip_call P sio bank (Set offset v) s =
           (None, s\<lparr>trace := trace s @ [Denied (addr sio) 2]\<rparr>)"
proof -
  from assms have busy: "list_ex (overlaps (addr sio) 2) (regions s)"
    by (simp add: superio_enter_busy_iff)
  show ?thesis
    by (simp add: busy_runs [OF busy])
qed

theorem busy_is_reported_where_a_value_is_returned_witness:
  "fst (superio_enter scripted (addr board_sio) (contended [])) = - EBUSY \<and>
   gpio_chip_call scripted board_sio (hd nct610xd_gpio_bank) (Get 1) (contended []) =
     (Some (- EBUSY), \<lparr>regions = [(0x2e, 2)], trace = [Denied 0x2e 2], hw = []\<rparr>) \<and>
   gpio_chip_call scripted board_sio (hd nct610xd_gpio_bank) (Set 1 1) (contended []) =
     (None, \<lparr>regions = [(0x2e, 2)], trace = [Denied 0x2e 2], hw = []\<rparr>)"
proof -
  have h: "fst (superio_enter scripted (addr board_sio) (contended [])) = - EBUSY"
    by (simp add: superio_enter_busy_iff contended_def board_sio_def overlaps_def)
  from busy_is_reported_where_a_value_is_returned
         [OF h, of "hd nct610xd_gpio_bank" 1 1] h
  show ?thesis by (simp add: contended_def board_sio_def)
qed

text \<open>
  The claim as stated, that every one of the five operations reports the error, fails
  for \<open>Set\<close>: with the region at \<open>0x2e\<close> held by another driver, \<open>superio_enter\<close>
  fails with \<open>-EBUSY\<close> and the caller of the \<open>set\<close> callback gets no value at all.
\<close>

theorem set_does_not_report_busy_counterexample:
  "fst (superio_enter scripted (addr board_sio) (contended [])) = - EBUSY \<and>
   fst (gpio_chip_call scripted board_sio (hd nct610xd_gpio_bank) (Set 1 1) (contended []))
     \<noteq> Some (- EBUSY)"
  by (simp add: superio_enter_busy_iff contended_def board_sio_def overlaps_def)

subsection \<open>Enabling GPIO port 4 during discovery\<close>

text \<open>
  C9. \<open>nct610xd_find\<close>, in an open session, reads the chip id from registers \<open>0x20\<close>
  and \<open>0x21\<close>. When it is \<open>0xd282\<close>, what follows is exactly: the chip id read once
  more (for the log), the GPIO logical device selected, register \<open>0x30\<close> read,
  written back with bit \<open>0x10\<close> set, read back, and the session closed. If the byte
  read back lacks bit \<open>0x10\<close> the result is \<open>EPERM\<close>, the positive value 1, not a
  negated errno; otherwise it is 0.
\<close>

theorem find_enables_and_verifies:
  assumes "fst (superio_enter P a s) = 0"
  shows "\<exists>hi lo rest.
           trace (snd (snd (nct610xd_find P a sio s))) =
             trace s @ enter_events a @ read_events a 0x20 hi @ read_events a 0x21 lo @ rest \<and>
           (hi = 0xd2 \<and> lo = 0x82 \<longrightarrow>
              (\<exists>hi' lo' g g'.
                 rest = read_events a 0x20 hi' @ read_events a 0x21 lo' @ select_events a @
                        read_events a 0x30 g @ write_events a 0x30 (g OR 0x10) @
                        read_events a 0x30 g' @ exit_events a \<and>
                 fst (nct610xd_find P a sio s) = (if g' AND 0x10 = 0 then EPERM else 0) \<and>
                 (g' AND 0x10 = 0 \<longrightarrow> fst (nct610xd_find P a sio s) = 1)))"
proof -
  from assms have free: "\<not> list_ex (overlaps a 2) (regions s)"
    by (simp add: superio_enter_ok_iff)
  from find_run(1) [OF free, of P sio] obtain hi lo where
    *: "if hi = 0xd2 \<and> lo = 0x82 then
          \<exists>hi' lo' g g'.
            fst (nct610xd_find P a sio s) = (if g' AND 0x10 = 0 then EPERM else 0) \<and>
            fst (snd (nct610xd_find P a sio s)) = sio\<lparr>type := nct610xd, addr := a\<rparr> \<and>
            trace (snd (snd (nct610xd_find P a sio s))) =
              trace s @ match_events a hi lo hi' lo' g g'
        else
          fst (nct610xd_find P a sio s) = - ENODEV \<and>
          fst (snd (nct610xd_find P a sio s)) = sio \<and>
          trace (snd (snd (nct610xd_find P a sio s))) = trace s @ mismatch_events a hi lo"
    by blast
  show ?thesis
  proof (cases "hi = 0xd2 \<and> lo = 0x82")
    case False
    with * have "trace (snd (snd (nct610xd_find P a sio s))) =
        trace s @ enter_events a @ read_events a 0x20 hi @ read_events a 0x21 lo @ exit_events a"
      by (simp add: mismatch_events_def)
    with False show ?thesis by blast
  next
    case True
    with * obtain hi' lo' g g' where
      r: "fst (nct610xd_find P a sio s) = (if g' AND 0x10 = 0 then EPERM else 0)" and
      t: "trace (snd (snd (nct610xd_find P a sio s))) =
            trace s @ match_events a hi lo hi' lo' g g'"
      by auto
    let ?rest = "read_events a 0x20 hi' @ read_events a 0x21 lo' @ select_events a @
                 read_events a 0x30 g @ write_events a 0x30 (g OR 0x10) @
                 read_events a 0x30 g' @ exit_events a"
    have "trace (snd (snd (nct610xd_find P a sio s))) =
            trace s @ enter_events a @ read_events a 0x20 hi @ read_events a 0x21 lo @ ?rest"
      using t by (simp add: match_events_def)
    moreover have "g' AND 0x10 = 0 \<longrightarrow> fst (nct610xd_find P a sio s) = 1"
      using r by (simp add: EPERM_def)
    ultimately show ?thesis using r by blast
  qed
qed

theorem find_enables_and_verifies_witness:
  "fst (superio_enter scripted 0x2e (idle [0xd2, 0x82, 0xd2, 0x82, 0x0F, 0x0F])) = 0 \<and>
   nct610xd_find scripted 0x2e \<lparr>addr = 0, type = nct610xd\<rparr>
       (idle [0xd2, 0x82, 0xd2, 0x82, 0x0F, 0x0F]) =
     (1, \<lparr>addr = 0x2e, type = nct610xd\<rparr>,
      \<lparr>regions = [],
       trace = [Request 0x2e 2, Outb 0x87 0x2e, Outb 0x87 0x2e,
                Outb 0x20 0x2e, Inb 0x2f 0xd2, Outb 0x21 0x2e, Inb 0x2f 0x82,
                Outb 0x20 0x2e, Inb 0x2f 0xd2, Outb 0x21 0x2e, Inb 0x2f 0x82,
                Outb 0x07 0x2e, Outb 0x07 0x2f,
                Outb 0x30 0x2e, Inb 0x2f 0x0F, Outb 0x30 0x2e, Outb 0x1F 0x2f,
                Outb 0x30 0x2e, Inb 0x2f 0x0F, Outb 0xAA 0x2e, Release 0x2e 2],
       hw = []\<rparr>)"
  using find_enables_and_verifies
          [where P = scripted and a = "0x2e" and sio = "\<lparr>addr = 0, type = nct610xd\<rparr>"
             and s = "idle [0xd2, 0x82, 0xd2, 0x82, 0x0F, 0x0F]"]
  by (simp add: nct610xd_find_def nct610xd_find_err_def driver_defs eval_defs split_beta Let_def)

subsection \<open>Two encodings of a set bit\<close>

text \<open>
  C10. For a pin \<open>offset < 8\<close>, \<open>nct610xd_gpio_get\<close> returns exactly 0 or 1 according
  to bit \<open>offset\<close> of the data register byte it read, while
  \<open>nct610xd_gpio_get_direction\<close> returns the masked byte itself: \<open>2 ^ offset\<close> when
  bit \<open>offset\<close> of the direction register byte is set, which is not 1 for \<open>offset > 0\<close>,
  and 0 when it is clear.
\<close>

theorem get_is_0_or_1_get_direction_is_the_mask:
  assumes "fst (superio_enter P (addr sio) s) = 0" and "offset < 8"
  shows "(\<exists>d. trace (snd (nct610xd_gpio_get P sio bank offset s)) =
               trace s @ enter_events (addr sio) @ select_events (addr sio) @
               read_events (addr sio) (ucast (gpio_data (regbase bank))) d @
               exit_events (addr sio) \<and>
             fst (nct610xd_gpio_get P sio bank offset s) = (if bit d offset then 1 else 0)) \<and>
         (\<exists>d. trace (snd (nct610xd_gpio_get_direction P sio bank offset s)) =
               trace s @ enter_events (addr sio) @ select_events (addr sio) @
               read_events (addr sio) (ucast (gpio_dir (regbase bank))) d @
               exit_events (addr sio) \<and>
             fst (nct610xd_gpio_get_direction P sio bank offset s) =
               (if bit d offset then 2 ^ offset else 0)) \<and>
         (0 < offset \<longrightarrow> (2 :: int) ^ offset \<noteq> 1)"
proof -
  from assms have free: "\<not> list_ex (overlaps (addr sio) 2) (regions s)"
    by (simp add: superio_enter_ok_iff)
  have "\<exists>d. trace (snd (nct610xd_gpio_get P sio bank offset s)) =
               trace s @ enter_events (addr sio) @ select_events (addr sio) @
               read_events (addr sio) (ucast (gpio_data (regbase bank))) d @
               exit_events (addr sio) \<and>
             fst (nct610xd_gpio_get P sio bank offset s) = (if bit d offset then 1 else 0)"
    using get_run(1) [OF free, of P bank offset] by (auto simp add: gpio_data_def)
  moreover have "\<exists>d. trace (snd (nct610xd_gpio_get_direction P sio bank offset s)) =
               trace s @ enter_events (addr sio) @ select_events (addr sio) @
               read_events (addr sio) (ucast (gpio_dir (regbase bank))) d @
               exit_events (addr sio) \<and>
             fst (nct610xd_gpio_get_direction P sio bank offset s) =
               (if bit d offset then 2 ^ offset else 0)"
    using get_direction_run(1) [OF free, of P bank offset] assms(2)
    by (auto simp add: gpio_dir_def promote_mask simp del: push_bit_of_1)
  moreover have "0 < offset \<longrightarrow> (2 :: int) ^ offset \<noteq> 1"
    using power_inject_exp [of "2 :: int" offset 0] by simp
  ultimately show ?thesis by blast
qed

theorem get_is_0_or_1_get_direction_is_the_mask_witness:
  "fst (superio_enter scripted (addr board_sio) (idle [0x08])) = 0 \<and> (3 :: nat) < 8 \<and>
   fst (nct610xd_gpio_get scripted board_sio (hd nct610xd_gpio_bank) 3 (idle [0x08])) = 1 \<and>
   fst (nct610xd_gpio_get_direction scripted board_sio (hd nct610xd_gpio_bank) 3 (idle [0x08])) = 8"
  using get_is_0_or_1_get_direction_is_the_mask
          [where P = scripted and sio = board_sio and s = "idle [0x08]"
             and bank = "hd nct610xd_gpio_bank" and offset = 3]
  by (simp add: nct610xd_gpio_get_def nct610xd_gpio_get_direction_def driver_defs eval_defs
      split_beta Let_def)

subsection \<open>The simulated chip, step by step\<close>

lemmas chip_defs = sim_chip_def chip_outb_def chip_inb_def

lemma sim_enter:
  assumes "\<not> list_ex (overlaps a 2) (regions s)"
  shows "fst (superio_enter (sim_chip a) a s) = 0"
    and "unlocked (hw (snd (superio_enter (sim_chip a) a s)))"
    and "regs (hw (snd (superio_enter (sim_chip a) a s))) = regs (hw s)"
    and "regions (snd (superio_enter (sim_chip a) a s)) = (a, 2) # regions s"
  using assms
  by (simp_all add: superio_enter_def request_muxed_region_def outb_def SIO_UNLOCK_KEY_def
      chip_defs)

lemma sim_select:
  assumes "unlocked (hw s)"
  shows "unlocked (hw (superio_select (sim_chip a) a ld s))"
    and "regs (hw (superio_select (sim_chip a) a ld s)) = (regs (hw s))(0x07 := word_of_int ld)"
    and "regions (superio_select (sim_chip a) a ld s) = regions s"
  using assms
  by (simp_all add: superio_select_def outb_def SIO_LDSEL_def chip_defs)

lemma sim_inb:
  assumes "unlocked (hw s)" and "(word_of_int reg :: u8) \<noteq> 0xAA"
  shows "fst (superio_inb (sim_chip a) a reg s) = uint (regs (hw s) (word_of_int reg))"
    and "unlocked (hw (snd (superio_inb (sim_chip a) a reg s)))"
    and "regs (hw (snd (superio_inb (sim_chip a) a reg s))) = regs (hw s)"
    and "regions (snd (superio_inb (sim_chip a) a reg s)) = regions s"
  using assms
  by (simp_all add: superio_inb_def outb_def inb_def chip_defs split_beta)

lemma sim_outb:
  assumes "unlocked (hw s)" and "(word_of_int reg :: u8) \<noteq> 0xAA"
  shows "unlocked (hw (superio_outb (sim_chip a) a reg v s))"
    and "regs (hw (superio_outb (sim_chip a) a reg v s)) =
           (regs (hw s))(word_of_int reg := word_of_int v)"
    and "regions (superio_outb (sim_chip a) a reg v s) = regions s"
  using assms
  by (simp_all add: superio_outb_def outb_def chip_defs)

lemma sim_exit:
  shows "regs (hw (superio_exit (sim_chip a) a s)) = regs (hw s)"
    and "regions (superio_exit (sim_chip a) a s) = remove1 (a, 2) (regions s)"
  by (simp_all add: superio_exit_def outb_def release_region_def SIO_LOCK_KEY_def chip_defs)

lemmas sim_steps = sim_enter sim_select sim_inb sim_outb sim_exit

lemma configured_regbase: "bank \<in> set nct610xd_gpio_bank \<Longrightarrow> regbase bank = 0xF0"
  by (auto simp add: nct610xd_gpio_bank_def NCT610XD_GPIO_BANK_def)

subsection \<open>The operations on the simulated chip\<close>

lemma sim_direction_out:
  assumes "\<not> list_ex (overlaps (addr sio) 2) (regions s)" and "regbase bank = 0xF0"
  shows "fst (nct610xd_gpio_direction_out (sim_chip (addr sio)) sio bank offset v s) = 0"
    and "regs (hw (snd (nct610xd_gpio_direction_out (sim_chip (addr sio)) sio bank offset v s))) =
          (regs (hw s))
            (0x07 := 0x07,
             0xF1 := (if v \<noteq> 0 then regs (hw s) 0xF1 OR push_bit offset 1
                      else regs (hw s) 0xF1 AND NOT (push_bit offset 1)),
             0xF0 := regs (hw s) 0xF0 AND NOT (push_bit offset 1))"
    and "regions (snd (nct610xd_gpio_direction_out (sim_chip (addr sio)) sio bank offset v s)) =
          regions s"
  using assms
  by (simp_all add: nct610xd_gpio_direction_out_def sim_steps split_beta Let_def
      gpio_dir_def gpio_data_def SIO_LD_GPIO_def promote_or promote_and_not
      del: push_bit_of_1)

lemma sim_direction_in:
  assumes "\<not> list_ex (overlaps (addr sio) 2) (regions s)" and "regbase bank = 0xF0"
  shows "fst (nct610xd_gpio_direction_in (sim_chip (addr sio)) sio bank offset s) = 0"
    and "regs (hw (snd (nct610xd_gpio_direction_in (sim_chip (addr sio)) sio bank offset s))) =
          (regs (hw s))(0x07 := 0x07, 0xF0 := regs (hw s) 0xF0 OR push_bit offset 1)"
    and "regions (snd (nct610xd_gpio_direction_in (sim_chip (addr sio)) sio bank offset s)) =
          regions s"
  using assms
  by (simp_all add: nct610xd_gpio_direction_in_def sim_steps split_beta Let_def
      gpio_dir_def gpio_data_def SIO_LD_GPIO_def promote_or promote_and_not
      del: push_bit_of_1)

lemma sim_get:
  assumes "\<not> list_ex (overlaps (addr sio) 2) (regions s)" and "regbase bank = 0xF0"
  shows "fst (nct610xd_gpio_get (sim_chip (addr sio)) sio bank offset s) =
           (if bit (regs (hw s) 0xF1) offset then 1 else 0)"
  using assms
  by (simp_all add: nct610xd_gpio_get_def sim_steps split_beta Let_def
      gpio_dir_def gpio_data_def SIO_LD_GPIO_def promote_test promote_test_0
      del: push_bit_of_1)

lemma sim_get_direction:
  assumes "\<not> list_ex (overlaps (addr sio) 2) (regions s)" and "regbase bank = 0xF0"
    and "offset < 8"
  shows "fst (nct610xd_gpio_get_direction (sim_chip (addr sio)) sio bank offset s) =
           (if bit (regs (hw s) 0xF0) offset then 2 ^ offset else 0)"
  using assms
  by (simp_all add: nct610xd_gpio_get_direction_def sim_steps split_beta Let_def
      gpio_dir_def gpio_data_def SIO_LD_GPIO_def promote_mask
      del: push_bit_of_1)

lemma sim_set:
  assumes "regbase bank = 0xF0"
  shows "regs (hw (nct610xd_gpio_set (sim_chip (addr sio)) sio bank offset v s)) =
           (if list_ex (overlaps (addr sio) 2) (regions s) then regs (hw s)
            else (regs (hw s))
              (0x07 := 0x07,
               0xF1 := (if v \<noteq> 0 then regs (hw s) 0xF1 OR push_bit offset 1
                        else regs (hw s) 0xF1 AND NOT (push_bit offset 1))))"
proof (cases "list_ex (overlaps (addr sio) 2) (regions s)")
  case True
  then show ?thesis by (simp add: busy_runs)
next
  case False
  then show ?thesis
    using assms
    by (simp add: nct610xd_gpio_set_def sim_steps split_beta Let_def
        gpio_dir_def gpio_data_def SIO_LD_GPIO_def promote_or promote_and_not
        del: push_bit_of_1)
qed

lemma bit_set_u8: "n < 8 \<Longrightarrow> bit ((d :: u8) OR push_bit n 1) n"
  by (simp add: bit_simps)

lemma bit_clear_u8: "\<not> bit ((d :: u8) AND NOT (push_bit n 1)) n"
  by (simp add: bit_simps)

lemma board_bank: "hd nct610xd_gpio_bank \<in> set nct610xd_gpio_bank"
  by (simp add: nct610xd_gpio_bank_def)

lemma board_enter: "fst (superio_enter P (addr board_sio) (idle h)) = 0"
  by (simp add: superio_enter_ok_iff idle_def)

subsection \<open>Round trips on the simulated chip\<close>

text \<open>
  C2. On the simulated chip, where a register read returns the last value written, and
  with the region free: for every pin \<open>offset\<close> in 0..7 of the configured bank and
  every \<open>level\<close> in \<open>{0, 1}\<close>, \<open>nct610xd_gpio_direction_out offset level\<close> succeeds
  and the \<open>nct610xd_gpio_get offset\<close> that follows returns \<open>level\<close>.
\<close>

theorem direction_out_then_get_reads_level:
  assumes "bank \<in> set nct610xd_gpio_bank" and "offset < 8" and "level = 0 \<or> level = 1"
    and "fst (superio_enter (sim_chip (addr sio)) (addr sio) s) = 0"
  shows "fst (nct610xd_gpio_direction_out (sim_chip (addr sio)) sio bank offset level s) = 0 \<and>
         fst (nct610xd_gpio_get (sim_chip (addr sio)) sio bank offset
               (snd (nct610xd_gpio_direction_out (sim_chip (addr sio)) sio bank offset level s)))
           = level"
proof -
  from assms(4) have free: "\<not> list_ex (overlaps (addr sio) 2) (regions s)"
    by (simp add: superio_enter_ok_iff)
  note rb = configured_regbase [OF assms(1)]
  let ?s1 = "snd (nct610xd_gpio_direction_out (sim_chip (addr sio)) sio bank offset level s)"
  have free1: "\<not> list_ex (overlaps (addr sio) 2) (regions ?s1)"
    using free by (simp add: sim_direction_out(3) [OF free rb])
  have "fst (nct610xd_gpio_get (sim_chip (addr sio)) sio bank offset ?s1) = level"
    using assms(2,3)
    by (auto simp add: sim_get [OF free1 rb] sim_direction_out(2) [OF free rb]
        bit_set_u8 bit_clear_u8 simp del: push_bit_of_1)
  then show ?thesis by (simp add: sim_direction_out(1) [OF free rb])
qed

theorem direction_out_then_get_reads_level_witness:
  "hd nct610xd_gpio_bank \<in> set nct610xd_gpio_bank \<and> (5 :: nat) < 8 \<and>
   ((1 :: int) = 0 \<or> (1 :: int) = 1) \<and>
   fst (superio_enter (sim_chip (addr board_sio)) (addr board_sio) (idle blank_chip)) = 0 \<and>
   fst (nct610xd_gpio_direction_out (sim_chip (addr board_sio)) board_sio
          (hd nct610xd_gpio_bank) 5 1 (idle blank_chip)) = 0 \<and>
   fst (nct610xd_gpio_get (sim_chip (addr board_sio)) board_sio (hd nct610xd_gpio_bank) 5
          (snd (nct610xd_gpio_direction_out (sim_chip (addr board_sio)) board_sio
                  (hd nct610xd_gpio_bank) 5 1 (idle blank_chip)))) = 1"
proof -
  have "(5 :: nat) < 8" and "(1 :: int) = 0 \<or> (1 :: int) = 1"
    by simp_all
  from direction_out_then_get_reads_level [OF board_bank this board_enter] board_bank board_enter
  show ?thesis by simp
qed

text \<open>
  C8. On the simulated chip, with the region free, for every pin \<open>offset\<close> in 0..7 of
  the configured bank: after \<open>nct610xd_gpio_direction_in\<close> the next
  \<open>nct610xd_gpio_get_direction\<close> returns \<open>2 ^ offset\<close>, a nonzero value, which is how
  this driver reports an input; after \<open>nct610xd_gpio_direction_out\<close>, whatever the
  level, it returns 0, an output.
\<close>

theorem direction_set_then_get_direction:
  assumes "bank \<in> set nct610xd_gpio_bank" and "offset < 8"
    and "fst (superio_enter (sim_chip (addr sio)) (addr sio) s) = 0"
  shows "fst (nct610xd_gpio_get_direction (sim_chip (addr sio)) sio bank offset
               (snd (nct610xd_gpio_direction_in (sim_chip (addr sio)) sio bank offset s)))
           = 2 ^ offset \<and>
         fst (nct610xd_gpio_get_direction (sim_chip (addr sio)) sio bank offset
               (snd (nct610xd_gpio_direction_out (sim_chip (addr sio)) sio bank offset level s)))
           = 0"
proof -
  from assms(3) have free: "\<not> list_ex (overlaps (addr sio) 2) (regions s)"
    by (simp add: superio_enter_ok_iff)
  note rb = configured_regbase [OF assms(1)]
  let ?s1 = "snd (nct610xd_gpio_direction_in (sim_chip (addr sio)) sio bank offset s)"
  let ?s2 = "snd (nct610xd_gpio_direction_out (sim_chip (addr sio)) sio bank offset level s)"
  have free1: "\<not> list_ex (overlaps (addr sio) 2) (regions ?s1)"
    using free by (simp add: sim_direction_in(3) [OF free rb])
  have free2: "\<not> list_ex (overlaps (addr sio) 2) (regions ?s2)"
    using free by (simp add: sim_direction_out(3) [OF free rb])
  have "fst (nct610xd_gpio_get_direction (sim_chip (addr sio)) sio bank offset ?s1) = 2 ^ offset"
    using assms(2)
    by (simp add: sim_get_direction [OF free1 rb] sim_direction_in(2) [OF free rb]
        bit_set_u8 del: push_bit_of_1)
  moreover
  have "fst (nct610xd_gpio_get_direction (sim_chip (addr sio)) sio bank offset ?s2) = 0"
    using assms(2)
    by (simp add: sim_get_direction [OF free2 rb] sim_direction_out(2) [OF free rb]
        bit_clear_u8 del: push_bit_of_1)
  ultimately show ?thesis by simp
qed

theorem direction_set_then_get_direction_witness:
  "hd nct610xd_gpio_bank \<in> set nct610xd_gpio_bank \<and> (5 :: nat) < 8 \<and>
   fst (superio_enter (sim_chip (addr board_sio)) (addr board_sio) (idle blank_chip)) = 0 \<and>
   fst (nct610xd_gpio_get_direction (sim_chip (addr board_sio)) board_sio
          (hd nct610xd_gpio_bank) 5
          (snd (nct610xd_gpio_direction_in (sim_chip (addr board_sio)) board_sio
                  (hd nct610xd_gpio_bank) 5 (idle blank_chip)))) = 32 \<and>
   fst (nct610xd_gpio_get_direction (sim_chip (addr board_sio)) board_sio
          (hd nct610xd_gpio_bank) 5
          (snd (nct610xd_gpio_direction_out (sim_chip (addr board_sio)) board_sio
                  (hd nct610xd_gpio_bank) 5 1 (idle blank_chip)))) = 0"
proof -
  have "(5 :: nat) < 8"
    by simp
  from direction_set_then_get_direction [OF board_bank this board_enter, where level = 1]
    board_bank board_enter
  show ?thesis by simp
qed

subsection \<open>What set leaves alone\<close>

text \<open>
  C3. \<open>nct610xd_gpio_set\<close> never changes the direction register. On the simulated
  chip, for every offset, value and starting state, the direction register of the
  configured bank (\<open>regbase + 0\<close>) holds the same byte before and after the call, and
  so does every register other than the data register (\<open>regbase + 1\<close>) and the
  logical-device select register \<open>0x07\<close> that opening the GPIO device writes. On any
  hardware and for any bank, a call that entered makes, after the select, one register
  read and one register write, both of the data register.
\<close>

theorem set_leaves_the_direction_register:
  "(bank \<in> set nct610xd_gpio_bank \<longrightarrow>
      regs (hw (nct610xd_gpio_set (sim_chip (addr sio)) sio bank offset v s))
           (ucast (gpio_dir (regbase bank))) =
        regs (hw s) (ucast (gpio_dir (regbase bank))) \<and>
      (\<forall>r. r \<noteq> ucast (gpio_data (regbase bank)) \<and> r \<noteq> 0x07 \<longrightarrow>
         regs (hw (nct610xd_gpio_set (sim_chip (addr sio)) sio bank offset v s)) r =
           regs (hw s) r)) \<and>
   (fst (superio_enter P (addr sio') s') = 0 \<longrightarrow>
      (\<exists>d. trace (nct610xd_gpio_set P sio' bank' offset v s') =
         trace s' @ enter_events (addr sio') @ select_events (addr sio') @
         read_events (addr sio') (ucast (gpio_data (regbase bank'))) d @
         write_events (addr sio') (ucast (gpio_data (regbase bank')))
           (if v \<noteq> 0 then d OR push_bit offset 1 else d AND NOT (push_bit offset 1)) @
         exit_events (addr sio')))"
proof (intro conjI impI allI)
  assume b: "bank \<in> set nct610xd_gpio_bank"
  note rb = configured_regbase [OF b]
  show "regs (hw (nct610xd_gpio_set (sim_chip (addr sio)) sio bank offset v s))
           (ucast (gpio_dir (regbase bank))) =
        regs (hw s) (ucast (gpio_dir (regbase bank)))"
    by (simp add: sim_set [OF rb] rb gpio_dir_def)
  fix r :: u8
  assume "r \<noteq> ucast (gpio_data (regbase bank)) \<and> r \<noteq> 0x07"
  then show "regs (hw (nct610xd_gpio_set (sim_chip (addr sio)) sio bank offset v s)) r =
           regs (hw s) r"
    by (simp add: sim_set [OF rb] rb gpio_data_def)
next
  assume "fst (superio_enter P (addr sio') s') = 0"
  then have free: "\<not> list_ex (overlaps (addr sio') 2) (regions s')"
    by (simp add: superio_enter_ok_iff)
  show "\<exists>d. trace (nct610xd_gpio_set P sio' bank' offset v s') =
         trace s' @ enter_events (addr sio') @ select_events (addr sio') @
         read_events (addr sio') (ucast (gpio_data (regbase bank'))) d @
         write_events (addr sio') (ucast (gpio_data (regbase bank')))
           (if v \<noteq> 0 then d OR push_bit offset 1 else d AND NOT (push_bit offset 1)) @
         exit_events (addr sio')"
    using set_run(1) [OF free, of P bank' offset v] by (simp add: gpio_data_def)
qed

theorem set_leaves_the_direction_register_witness:
  "hd nct610xd_gpio_bank \<in> set nct610xd_gpio_bank \<and>
   fst (superio_enter (sim_chip (addr board_sio)) (addr board_sio) (idle blank_chip)) = 0 \<and>
   regs (hw (nct610xd_gpio_set (sim_chip (addr board_sio)) board_sio (hd nct610xd_gpio_bank) 2 1
               (idle blank_chip))) 0xF0 = regs blank_chip 0xF0 \<and>
   (\<exists>d. trace (nct610xd_gpio_set (sim_chip (addr board_sio)) board_sio (hd nct610xd_gpio_bank)
                  2 1 (idle blank_chip)) =
      [Request 0x2e 2, Outb 0x87 0x2e, Outb 0x87 0x2e, Outb 0x07 0x2e, Outb 0x07 0x2f,
       Outb 0xF1 0x2e, Inb 0x2f d, Outb 0xF1 0x2e, Outb (d OR 4) 0x2f,
       Outb 0xAA 0x2e, Release 0x2e 2])"
proof -
  have rb: "regbase (hd nct610xd_gpio_bank) = 0xF0"
    by (rule configured_regbase [OF board_bank])
  from set_leaves_the_direction_register
         [where bank = "hd nct610xd_gpio_bank" and sio = board_sio and s = "idle blank_chip"
            and P = "sim_chip (addr board_sio)" and sio' = board_sio
            and s' = "idle blank_chip" and bank' = "hd nct610xd_gpio_bank"
            and offset = 2 and v = 1]
    board_bank board_enter [of "sim_chip (addr board_sio)" blank_chip]
  show ?thesis
    by (simp add: rb gpio_dir_def gpio_data_def events_defs idle_def board_sio_def)
qed

subsection \<open>Discovery\<close>

lemma sio_found: "sio\<lparr>type := nct610xd, addr := a\<rparr> = \<lparr>addr = a, type = nct610xd\<rparr>"
  by (cases sio) simp

lemma find_outcome:
  "\<exists>p. trace (snd (snd (nct610xd_find P a sio s))) = trace s @ p \<and>
       (probe_found a p \<and> fst (nct610xd_find P a sio s) = 0 \<and>
          fst (snd (nct610xd_find P a sio s)) = \<lparr>addr = a, type = nct610xd\<rparr>
        \<or> probe_failed a p \<and> fst (nct610xd_find P a sio s) \<noteq> 0)"
proof (cases "list_ex (overlaps a 2) (regions s)")
  case True
  have "trace (snd (snd (nct610xd_find P a sio s))) = trace s @ [Denied a 2]"
    and "fst (nct610xd_find P a sio s) \<noteq> 0"
    by (simp_all add: find_busy [OF True] EBUSY_def)
  moreover have "probe_failed a [Denied a 2]"
    by (simp add: probe_failed_def)
  ultimately show ?thesis by blast
next
  case False
  from find_run(1) [OF False, of P sio] obtain hi lo where
    *: "if hi = 0xd2 \<and> lo = 0x82 then
          \<exists>hi' lo' g g'.
            fst (nct610xd_find P a sio s) = (if g' AND 0x10 = 0 then EPERM else 0) \<and>
            fst (snd (nct610xd_find P a sio s)) = sio\<lparr>type := nct610xd, addr := a\<rparr> \<and>
            trace (snd (snd (nct610xd_find P a sio s))) =
              trace s @ match_events a hi lo hi' lo' g g'
        else
          fst (nct610xd_find P a sio s) = - ENODEV \<and>
          fst (snd (nct610xd_find P a sio s)) = sio \<and>
          trace (snd (snd (nct610xd_find P a sio s))) = trace s @ mismatch_events a hi lo"
    by blast
  show ?thesis
  proof (cases "hi = 0xd2 \<and> lo = 0x82")
    case mismatch: False
    with * have "trace (snd (snd (nct610xd_find P a sio s))) = trace s @ mismatch_events a hi lo"
      and "fst (nct610xd_find P a sio s) \<noteq> 0"
      by (simp_all add: ENODEV_def)
    moreover from mismatch have "probe_failed a (mismatch_events a hi lo)"
      unfolding probe_failed_def by blast
    ultimately show ?thesis by blast
  next
    case True
    with * obtain hi' lo' g g' where
      r: "fst (nct610xd_find P a sio s) = (if g' AND 0x10 = 0 then EPERM else 0)" and
      x: "fst (snd (nct610xd_find P a sio s)) = \<lparr>addr = a, type = nct610xd\<rparr>" and
      t: "trace (snd (snd (nct610xd_find P a sio s))) =
            trace s @ match_events a 0xd2 0x82 hi' lo' g g'"
      by (auto simp add: sio_found)
    show ?thesis
    proof (cases "g' AND 0x10 = 0")
      case stuck: True
      then have "probe_failed a (match_events a 0xd2 0x82 hi' lo' g g')"
        unfolding probe_failed_def by blast
      moreover from stuck r have "fst (nct610xd_find P a sio s) \<noteq> 0"
        by (simp add: EPERM_def)
      ultimately show ?thesis using t by blast
    next
      case enabled: False
      then have "probe_found a (match_events a 0xd2 0x82 hi' lo' g g')"
        unfolding probe_found_def by blast
      moreover from enabled r have "fst (nct610xd_find P a sio s) = 0"
        by simp
      ultimately show ?thesis using t x by blast
    qed
  qed
qed

lemma find_regions: "regions (snd (snd (nct610xd_find P a sio s))) = regions s"
proof (cases "list_ex (overlaps a 2) (regions s)")
  case True
  then show ?thesis by (simp add: find_busy)
next
  case False
  then show ?thesis by (rule find_run(2))
qed

lemma registration_tail:
  "\<exists>pf. trace (snd (if driver_register_ret E = 0 then
                       (case nct610xd_gpio_device_add E x (platform_call DriverRegister s2) of
                          (err, s4) \<Rightarrow>
                            if err \<noteq> 0 then (err, platform_call DriverUnregister s4)
                            else (err, s4))
                     else (driver_register_ret E, platform_call DriverRegister s2))) =
          trace s2 @ pf \<and>
        handed_over E x pf"
  by (simp add: Let_def nct610xd_gpio_device_add_def platform_call_def handed_over_def
      registration_event_def)

lemma init_found_first_eq:
  assumes "fst (nct610xd_find P 0x2e sio s) = 0"
  shows "nct610xd_gpio_init P E sio s =
          (if driver_register_ret E = 0 then
             (case nct610xd_gpio_device_add E (fst (snd (nct610xd_find P 0x2e sio s)))
                     (platform_call DriverRegister (snd (snd (nct610xd_find P 0x2e sio s)))) of
                (err, s4) \<Rightarrow>
                  if err \<noteq> 0 then (err, platform_call DriverUnregister s4)
                  else (err, s4))
           else (driver_register_ret E,
                 platform_call DriverRegister (snd (snd (nct610xd_find P 0x2e sio s)))))"
  using assms by (simp add: nct610xd_gpio_init_def split_beta Let_def)

lemma init_found_first:
  assumes "fst (nct610xd_find P 0x2e sio s) = 0"
  shows "\<exists>pf. trace (snd (nct610xd_gpio_init P E sio s)) =
              trace (snd (snd (nct610xd_find P 0x2e sio s))) @ pf \<and>
            handed_over E (fst (snd (nct610xd_find P 0x2e sio s))) pf"
  unfolding init_found_first_eq [OF assms] by (rule registration_tail)

lemma init_found_second_eq:
  assumes "fst (nct610xd_find P 0x2e sio s) \<noteq> 0"
    and "fst (nct610xd_find P 0x4e (fst (snd (nct610xd_find P 0x2e sio s)))
                (snd (snd (nct610xd_find P 0x2e sio s)))) = 0"
  shows "nct610xd_gpio_init P E sio s =
          (if driver_register_ret E = 0 then
             (case nct610xd_gpio_device_add E
                     (fst (snd (nct610xd_find P 0x4e (fst (snd (nct610xd_find P 0x2e sio s)))
                                 (snd (snd (nct610xd_find P 0x2e sio s))))))
                     (platform_call DriverRegister
                        (snd (snd (nct610xd_find P 0x4e (fst (snd (nct610xd_find P 0x2e sio s)))
                                 (snd (snd (nct610xd_find P 0x2e sio s))))))) of
                (err, s4) \<Rightarrow>
                  if err \<noteq> 0 then (err, platform_call DriverUnregister s4)
                  else (err, s4))
           else (driver_register_ret E,
                 platform_call DriverRegister
                   (snd (snd (nct610xd_find P 0x4e (fst (snd (nct610xd_find P 0x2e sio s)))
                                 (snd (snd (nct610xd_find P 0x2e sio s))))))))"
  using assms by (simp add: nct610xd_gpio_init_def split_beta Let_def)

lemma init_found_second:
  assumes "fst (nct610xd_find P 0x2e sio s) \<noteq> 0"
    and "fst (nct610xd_find P 0x4e (fst (snd (nct610xd_find P 0x2e sio s)))
                (snd (snd (nct610xd_find P 0x2e sio s)))) = 0"
  shows "\<exists>pf. trace (snd (nct610xd_gpio_init P E sio s)) =
              trace (snd (snd (nct610xd_find P 0x4e (fst (snd (nct610xd_find P 0x2e sio s)))
                (snd (snd (nct610xd_find P 0x2e sio s)))))) @ pf \<and>
            handed_over E (fst (snd (nct610xd_find P 0x4e (fst (snd (nct610xd_find P 0x2e sio s)))
                (snd (snd (nct610xd_find P 0x2e sio s)))))) pf"
  unfolding init_found_second_eq [OF assms] by (rule registration_tail)

lemma init_none:
  assumes "fst (nct610xd_find P 0x2e sio s) \<noteq> 0"
    and "fst (nct610xd_find P 0x4e (fst (snd (nct610xd_find P 0x2e sio s)))
                (snd (snd (nct610xd_find P 0x2e sio s)))) \<noteq> 0"
  shows "nct610xd_gpio_init P E sio s =
           (- ENODEV, snd (snd (nct610xd_find P 0x4e (fst (snd (nct610xd_find P 0x2e sio s)))
                (snd (snd (nct610xd_find P 0x2e sio s))))))"
  using assms by (simp add: nct610xd_gpio_init_def split_beta Let_def)


text \<open>
  C5 (as amended). \<open>nct610xd_gpio_init\<close> probes \<open>0x2e\<close> first and \<open>0x4e\<close> only when
  the probe of \<open>0x2e\<close> failed, and nothing else. A probe finds the chip when the region
  is granted, the chip id read from registers \<open>0x20\<close>, \<open>0x21\<close> (high byte first) is
  \<open>0xd282\<close> and the GPIO-enable register reads back with bit \<open>0x10\<close> set; discovery
  then goes on to register the driver and hands over that address. A probe fails on a
  refused region, a foreign chip id, or an enable bit that does not read back. When
  both probes fail the result is \<open>-ENODEV\<close> and no call into the platform bus is made.
\<close>

theorem discovery_order_and_outcome:
  "\<exists>p1 p2 pf.
     trace (snd (nct610xd_gpio_init P E sio s)) = trace s @ p1 @ p2 @ pf \<and>
     (probe_found 0x2e p1 \<and> p2 = [] \<and> handed_over E \<lparr>addr = 0x2e, type = nct610xd\<rparr> pf
      \<or> probe_failed 0x2e p1 \<and> probe_found 0x4e p2 \<and>
          handed_over E \<lparr>addr = 0x4e, type = nct610xd\<rparr> pf
      \<or> probe_failed 0x2e p1 \<and> probe_failed 0x4e p2 \<and> pf = [] \<and>
          fst (nct610xd_gpio_init P E sio s) = - ENODEV)"
proof -
  let ?f1 = "nct610xd_find P 0x2e sio s"
  let ?f2 = "nct610xd_find P 0x4e (fst (snd ?f1)) (snd (snd ?f1))"
  from find_outcome [of P "0x2e" sio s] obtain p1 where
    t1: "trace (snd (snd ?f1)) = trace s @ p1" and
    o1: "probe_found 0x2e p1 \<and> fst ?f1 = 0 \<and> fst (snd ?f1) = \<lparr>addr = 0x2e, type = nct610xd\<rparr>
         \<or> probe_failed 0x2e p1 \<and> fst ?f1 \<noteq> 0"
    by blast
  from find_outcome [of P "0x4e" "fst (snd ?f1)" "snd (snd ?f1)"] obtain p2 where
    t2: "trace (snd (snd ?f2)) = trace (snd (snd ?f1)) @ p2" and
    o2: "probe_found 0x4e p2 \<and> fst ?f2 = 0 \<and> fst (snd ?f2) = \<lparr>addr = 0x4e, type = nct610xd\<rparr>
         \<or> probe_failed 0x4e p2 \<and> fst ?f2 \<noteq> 0"
    by blast
  show ?thesis
  proof (cases "fst ?f1 = 0")
    case True
    with o1 have f: "probe_found 0x2e p1" and x: "fst (snd ?f1) = \<lparr>addr = 0x2e, type = nct610xd\<rparr>"
      by auto
    from init_found_first [OF True, of E] obtain pf where
      "trace (snd (nct610xd_gpio_init P E sio s)) = trace (snd (snd ?f1)) @ pf" and
      "handed_over E (fst (snd ?f1)) pf"
      by blast
    then have "trace (snd (nct610xd_gpio_init P E sio s)) = trace s @ p1 @ [] @ pf"
      and "handed_over E \<lparr>addr = 0x2e, type = nct610xd\<rparr> pf"
      by (simp_all add: t1 x)
    with f show ?thesis by blast
  next
    case first: False
    with o1 have f1: "probe_failed 0x2e p1" by auto
    show ?thesis
    proof (cases "fst ?f2 = 0")
      case True
      with o2 have f2: "probe_found 0x4e p2"
        and x: "fst (snd ?f2) = \<lparr>addr = 0x4e, type = nct610xd\<rparr>"
        by auto
      from init_found_second [OF first True, of E] obtain pf where
        "trace (snd (nct610xd_gpio_init P E sio s)) = trace (snd (snd ?f2)) @ pf" and
        "handed_over E (fst (snd ?f2)) pf"
        by blast
      then have "trace (snd (nct610xd_gpio_init P E sio s)) = trace s @ p1 @ p2 @ pf"
        and "handed_over E \<lparr>addr = 0x4e, type = nct610xd\<rparr> pf"
        by (simp_all add: t1 t2 x)
      with f1 f2 show ?thesis by blast
    next
      case second: False
      with o2 have f2: "probe_failed 0x4e p2" by auto
      have "trace (snd (nct610xd_gpio_init P E sio s)) = trace s @ p1 @ p2 @ []"
        and "fst (nct610xd_gpio_init P E sio s) = - ENODEV"
        by (simp_all add: init_none [OF first second] t1 t2)
      with f1 f2 show ?thesis by blast
    qed
  qed
qed

lemmas find_eval =
  nct610xd_find_def nct610xd_find_err_def driver_defs eval_defs split_beta Let_def

theorem discovery_order_and_outcome_witness:
  "nct610xd_gpio_init scripted platform_ok \<lparr>addr = 0, type = nct610xd\<rparr>
       (idle [0x12, 0x34, 0xd2, 0x82, 0xd2, 0x82, 0x00, 0x10]) =
     (0, \<lparr>regions = [],
          trace = mismatch_events 0x2e 0x12 0x34 @
                  match_events 0x4e 0xd2 0x82 0xd2 0x82 0x00 0x10 @
                  [DriverRegister, DeviceAlloc, DeviceAddData \<lparr>addr = 0x4e, type = nct610xd\<rparr>,
                   DeviceAdd],
          hw = []\<rparr>) \<and>
   probe_failed 0x2e (mismatch_events 0x2e 0x12 0x34) \<and>
   probe_found 0x4e (match_events 0x4e 0xd2 0x82 0xd2 0x82 0x00 0x10) \<and>
   handed_over platform_ok \<lparr>addr = 0x4e, type = nct610xd\<rparr>
     [DriverRegister, DeviceAlloc, DeviceAddData \<lparr>addr = 0x4e, type = nct610xd\<rparr>, DeviceAdd]"
proof -
  have run: "nct610xd_gpio_init scripted platform_ok \<lparr>addr = 0, type = nct610xd\<rparr>
       (idle [0x12, 0x34, 0xd2, 0x82, 0xd2, 0x82, 0x00, 0x10]) =
     (0, \<lparr>regions = [],
          trace = mismatch_events 0x2e 0x12 0x34 @
                  match_events 0x4e 0xd2 0x82 0xd2 0x82 0x00 0x10 @
                  [DriverRegister, DeviceAlloc, DeviceAddData \<lparr>addr = 0x4e, type = nct610xd\<rparr>,
                   DeviceAdd],
          hw = []\<rparr>)"
    by (simp add: nct610xd_gpio_init_def nct610xd_gpio_device_add_def platform_call_def
        platform_ok_def find_eval mismatch_events_def match_events_def events_defs)
  from discovery_order_and_outcome
         [of scripted platform_ok "\<lparr>addr = 0, type = nct610xd\<rparr>"
            "idle [0x12, 0x34, 0xd2, 0x82, 0xd2, 0x82, 0x00, 0x10]"]
  obtain p1 p2 pf where
    t: "mismatch_events 0x2e 0x12 0x34 @ match_events 0x4e 0xd2 0x82 0xd2 0x82 0x00 0x10 @
        [DriverRegister, DeviceAlloc, DeviceAddData \<lparr>addr = 0x4e, type = nct610xd\<rparr>, DeviceAdd]
        = p1 @ p2 @ pf" and
    o: "probe_found 0x2e p1 \<and> p2 = [] \<and> handed_over platform_ok \<lparr>addr = 0x2e, type = nct610xd\<rparr> pf
      \<or> probe_failed 0x2e p1 \<and> probe_found 0x4e p2 \<and>
          handed_over platform_ok \<lparr>addr = 0x4e, type = nct610xd\<rparr> pf
      \<or> probe_failed 0x2e p1 \<and> probe_failed 0x4e p2 \<and> pf = [] \<and>
          fst (nct610xd_gpio_init scripted platform_ok \<lparr>addr = 0, type = nct610xd\<rparr>
                 (idle [0x12, 0x34, 0xd2, 0x82, 0xd2, 0x82, 0x00, 0x10])) = - ENODEV"
    unfolding run by (auto simp add: idle_def)
  have "probe_failed 0x2e (mismatch_events 0x2e 0x12 0x34)"
    unfolding probe_failed_def by (intro disjI2 disjI1 exI [of _ "0x12"] exI [of _ "0x34"]) simp
  moreover have "probe_found 0x4e (match_events 0x4e 0xd2 0x82 0xd2 0x82 0x00 0x10)"
    unfolding probe_found_def
    by (intro exI [of _ "0xd2"] exI [of _ "0x82"] exI [of _ "0x00"] exI [of _ "0x10"]) simp
  moreover have "handed_over platform_ok \<lparr>addr = 0x4e, type = nct610xd\<rparr>
     [DriverRegister, DeviceAlloc, DeviceAddData \<lparr>addr = 0x4e, type = nct610xd\<rparr>, DeviceAdd]"
    by (simp add: handed_over_def registration_event_def)
  ultimately show ?thesis using run t o by simp
qed

text \<open>
  The claim as stated, that a candidate whose chip id is \<open>0xd282\<close> succeeds, fails on a
  chip at \<open>0x2e\<close> that answers the chip id but whose enable register reads back 0:
  \<open>nct610xd_find\<close> returns 1 there, and with nothing at \<open>0x4e\<close> discovery ends with
  \<open>-ENODEV\<close>.
\<close>

theorem chip_id_match_is_not_enough_counterexample:
  "trace (snd (snd (nct610xd_find scripted 0x2e \<lparr>addr = 0, type = nct610xd\<rparr>
                      (idle [0xd2, 0x82, 0xd2, 0x82, 0x00, 0x00])))) =
     match_events 0x2e 0xd2 0x82 0xd2 0x82 0x00 0x00 \<and>
   fst (nct610xd_find scripted 0x2e \<lparr>addr = 0, type = nct610xd\<rparr>
          (idle [0xd2, 0x82, 0xd2, 0x82, 0x00, 0x00])) = 1 \<and>
   fst (nct610xd_gpio_init scripted platform_ok \<lparr>addr = 0, type = nct610xd\<rparr>
          (idle [0xd2, 0x82, 0xd2, 0x82, 0x00, 0x00])) = - 19"
  by (simp add: nct610xd_gpio_init_def find_eval match_events_def events_defs)

end
